theory Spec2Isabelle
  imports Main
begin

section \<open>Decimal amounts\<close>

text \<open>
  Amounts are \<^verbatim>\<open>decimal.js\<close> values, a library outside the repository: finite decimal
  numbers \<open>coefficient * 10 ^ exponent\<close>. The constructor keeps every digit it is given.
  \<^verbatim>\<open>times\<close> and \<^verbatim>\<open>dividedBy\<close> round their result to \<^verbatim>\<open>Decimal.precision\<close> significant
  digits, 20 by default, half away from zero (\<^verbatim>\<open>ROUND_HALF_UP\<close>, the default
  rounding); the repository changes neither setting. Comparisons are exact. \<^verbatim>\<open>NaN\<close> and
  the infinities have no value here.
\<close>

datatype Decimal = Dec (coefficient: int) (exponent: int)

definition precision :: nat where
  "precision = 20"

text \<open>The number of decimal digits of a natural number (one for zero).\<close>

fun ndigits :: "nat \<Rightarrow> nat" where
  "ndigits n = (if n < 10 then 1 else Suc (ndigits (n div 10)))"

declare ndigits.simps [simp del]

text \<open>
  \<^verbatim>\<open>finalise(x, sd, ROUND_HALF_UP)\<close>: a coefficient of more than \<open>sd\<close> digits loses its
  last digits, the kept part going up by one when the dropped part is at least a half.
\<close>

definition finalise :: "nat \<Rightarrow> Decimal \<Rightarrow> Decimal" where
  "finalise sd x =
     (let c = coefficient x; n = ndigits (nat \<bar>c\<bar>) in
      if n \<le> sd then x
      else
        let k = n - sd; q = \<bar>c\<bar> div 10 ^ k; r = \<bar>c\<bar> mod 10 ^ k
        in Dec (sgn c * (if 10 ^ k \<le> 2 * r then q + 1 else q)) (exponent x + int k))"

definition Decimal_times :: "Decimal \<Rightarrow> Decimal \<Rightarrow> Decimal" where
  "Decimal_times x y = finalise precision (Dec (coefficient x * coefficient y) (exponent x + exponent y))"

text \<open>
  \<^verbatim>\<open>dividedBy\<close>: the quotient, correctly rounded to \<open>precision\<close> significant digits. The
  integer quotient is taken with enough extra digits that at least one is dropped by
  the rounding. Division by zero gives \<^verbatim>\<open>NaN\<close> or an infinity: \<open>None\<close>.
\<close>

definition Decimal_dividedBy :: "Decimal \<Rightarrow> Decimal \<Rightarrow> Decimal option" where
  "Decimal_dividedBy x y =
     (if coefficient y = 0 then None
      else
        let s = precision + ndigits (nat \<bar>coefficient y\<bar>);
            q = (\<bar>coefficient x\<bar> * 10 ^ s) div \<bar>coefficient y\<bar>
        in Some (finalise precision
                   (Dec (sgn (coefficient x) * sgn (coefficient y) * q)
                        (exponent x - exponent y - int s))))"

text \<open>\<^verbatim>\<open>new Decimal(10).pow(n)\<close> for a natural \<open>n\<close>: ten to the \<open>n\<close>, one significant digit.\<close>

definition pow10 :: "nat \<Rightarrow> Decimal" where
  "pow10 n = Dec 1 (int n)"

definition Decimal_lessThan :: "Decimal \<Rightarrow> Decimal \<Rightarrow> bool" where
  "Decimal_lessThan x y =
     (let m = min (exponent x) (exponent y)
      in coefficient x * 10 ^ nat (exponent x - m) < coefficient y * 10 ^ nat (exponent y - m))"

definition Decimal_lessThanOrEqualTo :: "Decimal \<Rightarrow> Decimal \<Rightarrow> bool" where
  "Decimal_lessThanOrEqualTo x y =
     (let m = min (exponent x) (exponent y)
      in coefficient x * 10 ^ nat (exponent x - m) \<le> coefficient y * 10 ^ nat (exponent y - m))"

definition Decimal_equals :: "Decimal \<Rightarrow> Decimal \<Rightarrow> bool" where
  "Decimal_equals x y =
     (let m = min (exponent x) (exponent y)
      in coefficient x * 10 ^ nat (exponent x - m) = coefficient y * 10 ^ nat (exponent y - m))"

text \<open>\<^verbatim>\<open>new Decimal(0)\<close>, and \<^verbatim>\<open>new Decimal(n.toString())\<close> for a BigInt \<open>n\<close>.\<close>

definition Decimal_zero :: Decimal where
  "Decimal_zero = Dec 0 0"

definition Decimal_of_BigInt :: "int \<Rightarrow> Decimal" where
  "Decimal_of_BigInt n = Dec n 0"

text \<open>\<^verbatim>\<open>BigInt.prototype.toString\<close>: the decimal digits, with a minus sign below zero.\<close>

fun nat_toString :: "nat \<Rightarrow> string" where
  "nat_toString n =
     (if n < 10 then [''0123456789'' ! n]
      else nat_toString (n div 10) @ [''0123456789'' ! (n mod 10)])"

definition BigInt_toString :: "int \<Rightarrow> string" where
  "BigInt_toString n = (if n < 0 then CHR ''-'' # nat_toString (nat (- n)) else nat_toString (nat n))"

section \<open>Errors, options and backend calls\<close>

text \<open>
  Every \<^verbatim>\<open>throw\<close> of the source is a value of \<open>error\<close>. \<open>Error msg\<close> is
  \<^verbatim>\<open>new Error(msg)\<close>. \<open>InsufficientFunds what amount available\<close> is the error
  \<^verbatim>\<open>new Error(`Insufficient funds ${amount} requested to ${what}, only ${available} available.`)\<close>
  with the two interpolated amounts kept as values. \<open>RemoteError\<close> is a rejected
  backend call, propagated as it is; \<open>SyntaxError\<close> is what \<^verbatim>\<open>BigInt\<close> throws on a string
  that is not an integer.
\<close>

datatype error =
    Error string
  | InsufficientFunds string Decimal Decimal
  | ArgumentError string
  | SyntaxError string
  | RemoteError string

text \<open>An options object \<^verbatim>\<open>{ [key: string]: string }\<close>: a map from keys to values.\<close>

type_synonym options = "string \<rightharpoonup> string"

text \<open>
  The calls on \<^verbatim>\<open>Coinbase.apiClients\<close>, with their arguments; an effectful function
  returns, next to its result, the list of calls it issued, in order.
  \<open>GetStakingContext\<close> and \<open>BuildStakingOperation\<close> carry the request's
  \<open>network_id\<close>, \<open>asset_id\<close>, \<open>address_id\<close> (then \<open>action\<close>) and \<open>options\<close>;
  \<open>CreateStakingOperation\<close> the wallet id, the address id and the request's
  \<open>network_id\<close>, \<open>asset_id\<close>, \<open>action\<close> and \<open>options\<close>;
  \<open>BroadcastStakingOperation\<close> the wallet id, the address id, the operation id, the
  signed payload and the transaction index.
\<close>

datatype api_call =
    GetExternalStakingOperation string string string
  | GetStakingOperation string string string
  | GetAsset string string
  | GetStakingContext string string string options
  | BuildStakingOperation string string string string options
  | CreateStakingOperation string string string string string options
  | BroadcastStakingOperation string string string string nat

section \<open>Staking operation: data model\<close>

text \<open>
  Modelled from the spec: \<^verbatim>\<open>StakingOperationStatusEnum\<close> of \<^verbatim>\<open>client/api\<close>, which is not
  under src/. The orchestration only tells \<open>Complete\<close> and \<open>Failed\<close> from every other
  (pending-like) status, which is kept by its name.
\<close>

datatype StakingOperationStatusEnum = Complete | Failed | Pending string

text \<open>
  The transaction model of the backend (\<^verbatim>\<open>client/api\<close>): the fields the container reads,
  and the signed payload that signing fills in.
\<close>

record TransactionModel =
  unsigned_payload :: string
  signed_payload :: "string option"

text \<open>
  Modelled from the spec: the \<^verbatim>\<open>Transaction\<close> class (\<^verbatim>\<open>transaction.js\<close>, not under src/).
  It wraps the model it is constructed from; its identity is the unsigned payload.
\<close>

record Transaction =
  tx_model :: TransactionModel

definition new_Transaction :: "TransactionModel \<Rightarrow> Transaction" where
  "new_Transaction m = \<lparr>tx_model = m\<rparr>"

definition getUnsignedPayload :: "Transaction \<Rightarrow> string" where
  "getUnsignedPayload tx = unsigned_payload (tx_model tx)"

text \<open>
  The snapshot returned by the backend. \<open>wallet_id = None\<close> is JavaScript's
  \<^verbatim>\<open>undefined\<close>; \<open>model_transactions = None\<close> is an absent transaction list.
\<close>

record StakingOperationModel =
  model_id :: string
  network_id :: string
  address_id :: string
  wallet_id :: "string option"
  status :: StakingOperationStatusEnum
  model_transactions :: "TransactionModel list option"

record StakingOperation =
  model :: StakingOperationModel
  transactions :: "Transaction list"

record backend =
  getExternalStakingOperation :: "string \<Rightarrow> string \<Rightarrow> string \<Rightarrow> error + StakingOperationModel"
  getStakingOperation :: "string \<Rightarrow> string \<Rightarrow> string \<Rightarrow> error + StakingOperationModel"

section \<open>Staking operation: accessors and predicates\<close>

definition getID :: "StakingOperation \<Rightarrow> string" where
  "getID op = model_id (model op)"

definition getStatus :: "StakingOperation \<Rightarrow> StakingOperationStatusEnum" where
  "getStatus op = status (model op)"

definition getWalletID :: "StakingOperation \<Rightarrow> string option" where
  "getWalletID op = wallet_id (model op)"

definition getAddressID :: "StakingOperation \<Rightarrow> string" where
  "getAddressID op = address_id (model op)"

definition getNetworkID :: "StakingOperation \<Rightarrow> string" where
  "getNetworkID op = network_id (model op)"

definition isFailedState :: "StakingOperation \<Rightarrow> bool" where
  "isFailedState op = (getStatus op = Failed)"

definition isCompleteState :: "StakingOperation \<Rightarrow> bool" where
  "isCompleteState op = (getStatus op = Complete)"

definition isTerminalState :: "StakingOperation \<Rightarrow> bool" where
  "isTerminalState op = (isCompleteState op \<or> isFailedState op)"

definition getTransactions :: "StakingOperation \<Rightarrow> Transaction list" where
  "getTransactions op = transactions op"

section \<open>Transaction reconciliation, construction, fetch and reload\<close>

text \<open>
  \<^verbatim>\<open>loadTransactionsFromModel\<close>: the set of local unsigned payloads is computed once,
  before the \<^verbatim>\<open>forEach\<close>; each snapshot transaction whose payload is not in that set is
  pushed, in snapshot order.
\<close>

definition loadTransactionsFromModel :: "StakingOperation \<Rightarrow> StakingOperation" where
  "loadTransactionsFromModel op =
     (case model_transactions (model op) of
        None \<Rightarrow> op
      | Some txs \<Rightarrow>
          if length txs > 0 then
            let existingUnsignedPayloads = set (map getUnsignedPayload (transactions op))
            in op\<lparr>transactions :=
                 foldl (\<lambda>acc transaction.
                          if unsigned_payload transaction \<notin> existingUnsignedPayloads
                          then acc @ [new_Transaction transaction] else acc)
                       (transactions op) txs\<rparr>
          else op)"

text \<open>The constructor: a missing model is rejected, the local list starts empty.\<close>

definition new_StakingOperation :: "StakingOperationModel option \<Rightarrow> error + StakingOperation" where
  "new_StakingOperation m =
     (case m of
        None \<Rightarrow> Inl (Error ''Invalid model type'')
      | Some mdl \<Rightarrow> Inr (loadTransactionsFromModel \<lparr>model = mdl, transactions = []\<rparr>))"

text \<open>The static \<^verbatim>\<open>fetch\<close>; the wallet id argument is optional.\<close>

definition fetch ::
  "backend \<Rightarrow> string \<Rightarrow> string \<Rightarrow> string \<Rightarrow> string option \<Rightarrow> (error + StakingOperation) \<times> api_call list" where
  "fetch be networkId addressId ident walletId =
     (case walletId of
        None \<Rightarrow>
          (case getExternalStakingOperation be networkId addressId ident of
             Inl e \<Rightarrow> (Inl e, [GetExternalStakingOperation networkId addressId ident])
           | Inr d \<Rightarrow> (new_StakingOperation (Some d), [GetExternalStakingOperation networkId addressId ident]))
      | Some w \<Rightarrow>
          if w \<noteq> [] then
            (case getStakingOperation be w addressId ident of
               Inl e \<Rightarrow> (Inl e, [GetStakingOperation w addressId ident])
             | Inr d \<Rightarrow> (new_StakingOperation (Some d), [GetStakingOperation w addressId ident]))
          else (Inl (Error ''Invalid wallet ID''), []))"

text \<open>
  \<^verbatim>\<open>reload\<close>: three cases on the wallet id of the stored snapshot. With an empty-string
  wallet id neither branch fetches; reconciliation runs in every case.
\<close>

definition reload :: "backend \<Rightarrow> StakingOperation \<Rightarrow> (error + StakingOperation) \<times> api_call list" where
  "reload be op =
     (case getWalletID op of
        None \<Rightarrow>
          (case getExternalStakingOperation be (getNetworkID op) (getAddressID op) (getID op) of
             Inl e \<Rightarrow> (Inl e, [GetExternalStakingOperation (getNetworkID op) (getAddressID op) (getID op)])
           | Inr d \<Rightarrow> (Inr (loadTransactionsFromModel (op\<lparr>model := d\<rparr>)),
                       [GetExternalStakingOperation (getNetworkID op) (getAddressID op) (getID op)]))
      | Some w \<Rightarrow>
          if w \<noteq> [] then
            (case getStakingOperation be w (getAddressID op) (getID op) of
               Inl e \<Rightarrow> (Inl e, [GetStakingOperation w (getAddressID op) (getID op)])
             | Inr d \<Rightarrow> (Inr (loadTransactionsFromModel (op\<lparr>model := d\<rparr>)),
                         [GetStakingOperation w (getAddressID op) (getID op)]))
          else (Inr (loadTransactionsFromModel op), []))"

text \<open>
  The snapshot a \<^verbatim>\<open>reload\<close> of this operation asks the backend for, when it asks at
  all: \<open>None\<close> when the wallet id is the empty string.
\<close>

definition fetched_snapshot :: "backend \<Rightarrow> StakingOperation \<Rightarrow> (error + StakingOperationModel) option" where
  "fetched_snapshot be op =
     (case getWalletID op of
        None \<Rightarrow> Some (getExternalStakingOperation be (getNetworkID op) (getAddressID op) (getID op))
      | Some w \<Rightarrow>
          if w \<noteq> [] then Some (getStakingOperation be w (getAddressID op) (getID op)) else None)"

text \<open>
  A sequence of \<^verbatim>\<open>await op.reload()\<close> calls, one backend state per call; the first
  failure ends the sequence. The result lists the operation's state after each call.
\<close>

fun reloads :: "StakingOperation \<Rightarrow> backend list \<Rightarrow> error + StakingOperation list" where
  "reloads op [] = Inr []"
| "reloads op (be # bes) =
     (case fst (reload be op) of
        Inl e \<Rightarrow> Inl e
      | Inr op' \<Rightarrow> (case reloads op' bes of Inl e \<Rightarrow> Inl e | Inr ops \<Rightarrow> Inr (op' # ops)))"

definition local_payloads :: "StakingOperation \<Rightarrow> string list" where
  "local_payloads op = map getUnsignedPayload (transactions op)"

definition snapshot_payloads :: "StakingOperationModel \<Rightarrow> string list" where
  "snapshot_payloads m =
     (case model_transactions m of None \<Rightarrow> [] | Some txs \<Rightarrow> map unsigned_payload txs)"

text \<open>
  Each snapshot of a run lists at least the payloads held locally just before it was
  fetched.
\<close>

fun superset_chain :: "StakingOperation \<Rightarrow> StakingOperation list \<Rightarrow> bool" where
  "superset_chain op [] = True"
| "superset_chain op (op' # ops) =
     (set (local_payloads op) \<subseteq> set (snapshot_payloads (model op')) \<and> superset_chain op' ops)"

text \<open>The spec's first-seen order: every element once, at its first occurrence.\<close>

fun first_seen :: "'a list \<Rightarrow> 'a list" where
  "first_seen [] = []"
| "first_seen (x # xs) = x # filter (\<lambda>y. y \<noteq> x) (first_seen xs)"

subsection \<open>Signing\<close>

text \<open>
  Modelled from the spec: \<^verbatim>\<open>Transaction.isSigned\<close> and \<^verbatim>\<open>Transaction.sign\<close>
  (\<^verbatim>\<open>transaction.js\<close>, not under src/). Signing fills in the signed payload and leaves
  the unsigned payload alone; the key is the capability that signs a payload or fails.
\<close>

type_synonym signing_key = "string \<Rightarrow> error + string"

definition isSigned :: "Transaction \<Rightarrow> bool" where
  "isSigned tx = (signed_payload (tx_model tx) \<noteq> None)"

definition sign_tx :: "signing_key \<Rightarrow> Transaction \<Rightarrow> error + Transaction" where
  "sign_tx key tx =
     (case key (getUnsignedPayload tx) of
        Inl e \<Rightarrow> Inl e
      | Inr s \<Rightarrow> Inr (tx\<lparr>tx_model := (tx_model tx)\<lparr>signed_payload := Some s\<rparr>\<rparr>))"

text \<open>
  \<^verbatim>\<open>StakingOperation.sign\<close>: the loop over the local list. A signing failure ends the
  loop; the transactions signed before it stay signed, so the state comes back next to
  the error.
\<close>

fun sign_loop :: "signing_key \<Rightarrow> Transaction list \<Rightarrow> Transaction list \<times> error option" where
  "sign_loop key [] = ([], None)"
| "sign_loop key (tx # txs) =
     (if \<not> isSigned tx then
        (case sign_tx key tx of
           Inl e \<Rightarrow> (tx # txs, Some e)
         | Inr tx' \<Rightarrow> (tx' # fst (sign_loop key txs), snd (sign_loop key txs)))
      else (tx # fst (sign_loop key txs), snd (sign_loop key txs)))"

definition sign :: "signing_key \<Rightarrow> StakingOperation \<Rightarrow> StakingOperation \<times> error option" where
  "sign key op = (op\<lparr>transactions := fst (sign_loop key (transactions op))\<rparr>, snd (sign_loop key (transactions op)))"

text \<open>
  The operations that can exist: built by the constructor, then reloaded and signed any
  number of times, all at once through \<^verbatim>\<open>sign\<close> or one transaction at a time.
\<close>

inductive reachable :: "StakingOperation \<Rightarrow> bool" where
  constructed: "new_StakingOperation (Some m) = Inr op \<Longrightarrow> reachable op"
| reloaded: "reachable op \<Longrightarrow> fst (reload be op) = Inr op' \<Longrightarrow> reachable op'"
| signed: "reachable op \<Longrightarrow> reachable (fst (sign key op))"
| signed_one:
    "reachable op \<Longrightarrow> i < length (transactions op) \<Longrightarrow> sign_tx key (transactions op ! i) = Inr tx'
       \<Longrightarrow> reachable (op\<lparr>transactions := (transactions op)[i := tx']\<rparr>)"

subsection \<open>Waiting\<close>

text \<open>
  \<^verbatim>\<open>wait\<close>. The environment is a script: the successive readings of
  \<^verbatim>\<open>Date.now()\<close> in milliseconds, and the backend's state at each reload. A script that
  ends before the loop does gives \<open>None\<close>. The sleep between two iterations shows only
  in the readings. The timeout is in whole seconds.
\<close>

fun wait_loop ::
  "int \<Rightarrow> int \<Rightarrow> int list \<Rightarrow> backend list \<Rightarrow> StakingOperation \<Rightarrow>
     ((error + StakingOperationModel) \<times> api_call list) option" where
  "wait_loop startTime timeoutSeconds [] bes op = None"
| "wait_loop startTime timeoutSeconds (now1 # clock1) bes op =
     (if now1 - startTime < timeoutSeconds * 1000 then
        (case bes of
           [] \<Rightarrow> None
         | be # bes' \<Rightarrow>
             (case fst (reload be op) of
                Inl e \<Rightarrow> Some (Inl e, snd (reload be op))
              | Inr op' \<Rightarrow>
                  if isTerminalState op' then Some (Inr (model op'), snd (reload be op))
                  else
                    (case clock1 of
                       [] \<Rightarrow> None
                     | now2 # clock2 \<Rightarrow>
                         if now2 - startTime > timeoutSeconds * 1000
                         then Some (Inl (Error ''Staking operation timed out''), snd (reload be op))
                         else
                           (case wait_loop startTime timeoutSeconds clock2 bes' op' of
                              None \<Rightarrow> None
                            | Some (r, calls) \<Rightarrow> Some (r, snd (reload be op) @ calls)))))
      else Some (Inl (Error ''Staking operation timed out''), []))"

definition wait ::
  "int \<Rightarrow> int list \<Rightarrow> backend list \<Rightarrow> StakingOperation \<Rightarrow>
     ((error + StakingOperationModel) \<times> api_call list) option" where
  "wait timeoutSeconds clock bes op =
     (if getWalletID op \<noteq> None
      then Some (Inl (Error ''cannot wait on staking operation for wallet address.''), [])
      else
        (case clock of
           [] \<Rightarrow> None
         | startTime # clock' \<Rightarrow> wait_loop startTime timeoutSeconds clock' bes op))"

text \<open>
  A backend that never reports a terminal status and never fails: what a test of the
  timeout mocks.
\<close>

definition never_terminal :: "backend \<Rightarrow> bool" where
  "never_terminal be =
     (\<forall>n a i.
        (case getExternalStakingOperation be n a i of
           Inl e \<Rightarrow> False | Inr d \<Rightarrow> status d \<noteq> Complete \<and> status d \<noteq> Failed)
      \<and> (case getStakingOperation be n a i of
           Inl e \<Rightarrow> False | Inr d \<Rightarrow> status d \<noteq> Complete \<and> status d \<noteq> Failed))"

section \<open>The consensus-layer exit builder\<close>

text \<open>
  Objects live in a store and are passed by reference, so that a write to an argument
  is visible: a reference is an index into the store, and an object literal allocates
  the next index.
\<close>

type_synonym ref = nat

type_synonym store = "options list"

definition alloc :: "store \<Rightarrow> options \<Rightarrow> store \<times> ref" where
  "alloc h obj = (h @ [obj], length h)"

text \<open>
  \<^verbatim>\<open>Object.assign(target, ...sources)\<close>: the sources' entries are written into the
  target object, in order, a later source overwriting an earlier one; only the target
  is written.
\<close>

definition Object_assign :: "store \<Rightarrow> ref \<Rightarrow> options list \<Rightarrow> store" where
  "Object_assign h target sources = h[target := foldl (++) (h ! target) sources]"

text \<open>\<^verbatim>\<open>Array.prototype.join\<close> on an array of strings.\<close>

fun join :: "string \<Rightarrow> string list \<Rightarrow> string" where
  "join sep [] = []"
| "join sep [x] = x"
| "join sep (x # y # ys) = x @ sep @ join sep (y # ys)"

definition UnstakeTypeExecution :: string where
  "UnstakeTypeExecution = ''execution''"

definition UnstakeTypeConsensus :: string where
  "UnstakeTypeConsensus = ''consensus''"

record ConsensusLayerExitOptionBuilder =
  validatorPubKeys :: "string list"

definition new_ConsensusLayerExitOptionBuilder :: ConsensusLayerExitOptionBuilder where
  "new_ConsensusLayerExitOptionBuilder = \<lparr>validatorPubKeys = []\<rparr>"

definition addValidator :: "string \<Rightarrow> ConsensusLayerExitOptionBuilder \<Rightarrow> ConsensusLayerExitOptionBuilder" where
  "addValidator pubKey b =
     (if pubKey \<notin> set (validatorPubKeys b)
      then b\<lparr>validatorPubKeys := validatorPubKeys b @ [pubKey]\<rparr>
      else b)"

text \<open>
  \<^verbatim>\<open>build(options = {})\<close>: the argument is a reference to the caller's object, or absent,
  in which case the default \<^verbatim>\<open>{}\<close> is allocated. The computed fields are an object
  literal; the result is \<^verbatim>\<open>Object.assign\<close> into a fresh \<^verbatim>\<open>{}\<close>. The builder, the new
  store and the reference of the result come back.
\<close>

definition consensus_build ::
  "ConsensusLayerExitOptionBuilder \<Rightarrow> store \<Rightarrow> ref option \<Rightarrow>
     ConsensusLayerExitOptionBuilder \<times> store \<times> ref" where
  "consensus_build b h optionsArg =
     (let (h1, opts) = (case optionsArg of None \<Rightarrow> alloc h Map.empty | Some r \<Rightarrow> (h, r));
          (h2, consensusLayerExitOptions) =
             alloc h1 [''unstake_type'' \<mapsto> UnstakeTypeConsensus,
                       ''validator_pub_keys'' \<mapsto> join '','' (validatorPubKeys b)];
          (h3, target) = alloc h2 Map.empty
      in (b, Object_assign h3 target [h3 ! opts, h3 ! consensusLayerExitOptions], target))"

section \<open>Assets\<close>

text \<open>The asset ids of \<^verbatim>\<open>Coinbase.assets\<close> that the staking code names.\<close>

definition assets_Eth :: string where
  "assets_Eth = ''eth''"

definition assets_Wei :: string where
  "assets_Wei = ''wei''"

definition assets_Gwei :: string where
  "assets_Gwei = ''gwei''"

text \<open>
  Modelled from the spec: \<^verbatim>\<open>GWEI_DECIMALS\<close> of \<^verbatim>\<open>constants.js\<close>, which is not under
  src/. The spec names gwei only as a sub-unit denomination of the native asset; a gwei
  is \<open>10 ^ 9\<close> wei. No theorem below depends on the value.
\<close>

definition GWEI_DECIMALS :: nat where
  "GWEI_DECIMALS = 9"

text \<open>
  \<^verbatim>\<open>String.prototype.toLowerCase\<close> on the ASCII letters, and the two replacements of
  \<^verbatim>\<open>Coinbase.normalizeNetwork\<close> and \<^verbatim>\<open>Coinbase.toAssetId\<close>.
\<close>

definition toLowerCase :: "string \<Rightarrow> string" where
  "toLowerCase s =
     map (\<lambda>c. if 65 \<le> (of_char c :: nat) \<and> (of_char c :: nat) \<le> 90
               then char_of ((of_char c :: nat) + 32) else c) s"

definition normalizeNetwork :: "string \<Rightarrow> string" where
  "normalizeNetwork network = map (\<lambda>c. if c = CHR ''_'' then CHR ''-'' else c) network"

definition toAssetId :: "string \<Rightarrow> string" where
  "toAssetId asset = map (\<lambda>c. if c = CHR ''-'' then CHR ''_'' else c) asset"

text \<open>The asset model of the backend (\<^verbatim>\<open>client/api\<close>), and the \<^verbatim>\<open>Asset\<close> class.\<close>

record AssetModel =
  asset_model_network_id :: string
  asset_model_asset_id :: "string option"
  asset_model_contract_address :: "string option"
  asset_model_decimals :: nat

record Asset =
  asset_networkId :: string
  asset_assetId :: string
  asset_contractAddress :: "string option"
  decimals :: nat

text \<open>
  \<^verbatim>\<open>Asset.fromModel\<close>. The asset id argument and the model's asset id count when they
  are non-empty strings; \<open>gwei\<close> and \<open>wei\<close> asked of a model of another asset change
  the decimals, any other mismatch but \<open>eth\<close> is an \<^verbatim>\<open>ArgumentError\<close>.
\<close>

definition fromModel :: "AssetModel option \<Rightarrow> string \<Rightarrow> error + Asset" where
  "fromModel mdl aid =
     (case mdl of
        None \<Rightarrow> Inl (Error ''Invalid asset model'')
      | Some m \<Rightarrow>
          (case
             (case asset_model_asset_id m of
                None \<Rightarrow> Inr (asset_model_decimals m)
              | Some modelAssetId \<Rightarrow>
                  if aid \<noteq> [] \<and> modelAssetId \<noteq> [] then
                    let normalizedModelAssetId = toLowerCase modelAssetId;
                        normalizedAssetId = toLowerCase aid
                    in if toAssetId normalizedModelAssetId \<noteq> toAssetId normalizedAssetId
                       then
                         if normalizedAssetId = ''gwei'' then Inr GWEI_DECIMALS
                         else if normalizedAssetId = ''wei'' then Inr 0
                         else if normalizedAssetId = ''eth'' then Inr (asset_model_decimals m)
                         else Inl (ArgumentError (''Invalid asset ID: '' @ aid))
                       else Inr (asset_model_decimals m)
                  else Inr (asset_model_decimals m)) of
             Inl e \<Rightarrow> Inl e
           | Inr d \<Rightarrow>
               Inr \<lparr>asset_networkId = asset_model_network_id m, asset_assetId = aid,
                    asset_contractAddress = asset_model_contract_address m, decimals = d\<rparr>))"

definition primaryDenomination :: "string \<Rightarrow> string" where
  "primaryDenomination aid = (if aid \<in> set [assets_Gwei, assets_Wei] then assets_Eth else aid)"

text \<open>
  \<^verbatim>\<open>toAtomicAmount\<close>: \<^verbatim>\<open>BigInt(atomicAmount.toFixed())\<close> is the integer the product is,
  and a \<^verbatim>\<open>SyntaxError\<close> when the product has a fractional part.
\<close>

definition BigInt_of_toFixed :: "Decimal \<Rightarrow> error + int" where
  "BigInt_of_toFixed x =
     (if 0 \<le> exponent x then Inr (coefficient x * 10 ^ nat (exponent x))
      else if coefficient x mod 10 ^ nat (- exponent x) = 0
      then Inr (coefficient x div 10 ^ nat (- exponent x))
      else Inl (SyntaxError ''Cannot convert to a BigInt''))"

definition toAtomicAmount :: "Asset \<Rightarrow> Decimal \<Rightarrow> error + int" where
  "toAtomicAmount asset wholeAmount =
     (let atomicAmount = Decimal_times wholeAmount (pow10 (decimals asset))
      in BigInt_of_toFixed atomicAmount)"

definition fromAtomicAmount :: "Asset \<Rightarrow> Decimal \<Rightarrow> Decimal option" where
  "fromAtomicAmount asset atomicAmount = Decimal_dividedBy atomicAmount (pow10 (decimals asset))"

section \<open>Staking modes, balances and the address backend\<close>

text \<open>
  Modelled from the spec: \<^verbatim>\<open>StakeOptionsMode\<close> of \<^verbatim>\<open>types\<close>, which is not under src/.
  Its members are non-empty strings, written into the options map under the key
  \<open>mode\<close>.
\<close>

datatype StakeOptionsMode = DEFAULT | PARTIAL | NATIVE

fun StakeOptionsMode_value :: "StakeOptionsMode \<Rightarrow> string" where
  "StakeOptionsMode_value DEFAULT = ''default''"
| "StakeOptionsMode_value PARTIAL = ''partial''"
| "StakeOptionsMode_value NATIVE = ''native''"

text \<open>
  Modelled from the spec: \<^verbatim>\<open>Balance.fromModelAndAssetId\<close> (\<^verbatim>\<open>balance.js\<close>, not under src/)
  turns each balance of the staking context into a decimal amount of the asked asset;
  the four amounts are taken after that conversion.
\<close>

record StakingBalances =
  stakeableBalance_of :: Decimal
  unstakeableBalance_of :: Decimal
  pendingClaimableBalance_of :: Decimal
  claimableBalance_of :: Decimal

text \<open>
  The backend behind an address: each field answers one call of \<^verbatim>\<open>Coinbase.apiClients\<close>,
  with the arguments of the matching \<open>api_call\<close>.
\<close>

record stake_backend =
  getAsset :: "string \<Rightarrow> string \<Rightarrow> error + AssetModel option"
  getStakingContext :: "string \<Rightarrow> string \<Rightarrow> string \<Rightarrow> options \<Rightarrow> error + StakingBalances"
  buildStakingOperation_api ::
    "string \<Rightarrow> string \<Rightarrow> string \<Rightarrow> string \<Rightarrow> options \<Rightarrow> error + StakingOperationModel"
  createStakingOperation_api ::
    "string \<Rightarrow> string \<Rightarrow> string \<Rightarrow> string \<Rightarrow> string \<Rightarrow> options \<Rightarrow> error + StakingOperationModel"
  broadcastStakingOperation_api ::
    "string \<Rightarrow> string \<Rightarrow> string \<Rightarrow> string \<Rightarrow> nat \<Rightarrow> error + StakingOperationModel"

text \<open>\<^verbatim>\<open>Asset.fetch\<close>.\<close>

definition Asset_fetch :: "stake_backend \<Rightarrow> string \<Rightarrow> string \<Rightarrow> (error + Asset) \<times> api_call list" where
  "Asset_fetch be nid aid =
     (case getAsset be (normalizeNetwork nid) (primaryDenomination aid) of
        Inl e \<Rightarrow> (Inl e, [GetAsset (normalizeNetwork nid) (primaryDenomination aid)])
      | Inr d \<Rightarrow> (fromModel d aid, [GetAsset (normalizeNetwork nid) (primaryDenomination aid)]))"

section \<open>Amount-exempt operations\<close>

definition HasUnstakeTypeOption :: "options \<Rightarrow> bool" where
  "HasUnstakeTypeOption opts =
     (opts ''unstake_type'' = Some UnstakeTypeConsensus \<or> opts ''unstake_type'' = Some UnstakeTypeExecution)"

definition IsDedicatedEthUnstakeV2Operation ::
  "string \<Rightarrow> string \<Rightarrow> StakeOptionsMode \<Rightarrow> options \<Rightarrow> bool" where
  "IsDedicatedEthUnstakeV2Operation aid action mode opts =
     (aid = assets_Eth \<and> action = ''unstake'' \<and> mode = NATIVE \<and> HasUnstakeTypeOption opts)"

section \<open>Addresses: balances and validation\<close>

record Address =
  address_networkId :: string
  address_ident :: string

definition getNetworkId :: "Address \<Rightarrow> string" where
  "getNetworkId a = address_networkId a"

definition getId :: "Address \<Rightarrow> string" where
  "getId a = address_ident a"

text \<open>\<^verbatim>\<open>copyOptions\<close>: a shallow copy; writes to the copy leave the argument alone.\<close>

definition copyOptions :: "options \<Rightarrow> options" where
  "copyOptions opts = opts"

text \<open>
  \<^verbatim>\<open>getStakingBalances\<close>. Every member of \<^verbatim>\<open>StakeOptionsMode\<close> is truthy, so the mode is
  always written into the copy.
\<close>

definition getStakingBalances ::
  "stake_backend \<Rightarrow> Address \<Rightarrow> string \<Rightarrow> StakeOptionsMode \<Rightarrow> options \<Rightarrow>
     (error + StakingBalances) \<times> api_call list" where
  "getStakingBalances be a aid mode opts =
     (let newOptions = (copyOptions opts)(''mode'' \<mapsto> StakeOptionsMode_value mode)
      in (getStakingContext be (getNetworkId a) (primaryDenomination aid) (getId a) newOptions,
          [GetStakingContext (getNetworkId a) (primaryDenomination aid) (getId a) newOptions]))"

definition stakeableBalance ::
  "stake_backend \<Rightarrow> Address \<Rightarrow> string \<Rightarrow> StakeOptionsMode \<Rightarrow> options \<Rightarrow>
     (error + Decimal) \<times> api_call list" where
  "stakeableBalance be a aid mode opts =
     (case getStakingBalances be a aid mode opts of
        (Inl e, cs) \<Rightarrow> (Inl e, cs)
      | (Inr balances, cs) \<Rightarrow> (Inr (stakeableBalance_of balances), cs))"

definition unstakeableBalance ::
  "stake_backend \<Rightarrow> Address \<Rightarrow> string \<Rightarrow> StakeOptionsMode \<Rightarrow> options \<Rightarrow>
     (error + Decimal) \<times> api_call list" where
  "unstakeableBalance be a aid mode opts =
     (case getStakingBalances be a aid mode opts of
        (Inl e, cs) \<Rightarrow> (Inl e, cs)
      | (Inr balances, cs) \<Rightarrow> (Inr (unstakeableBalance_of balances), cs))"

definition claimableBalance ::
  "stake_backend \<Rightarrow> Address \<Rightarrow> string \<Rightarrow> StakeOptionsMode \<Rightarrow> options \<Rightarrow>
     (error + Decimal) \<times> api_call list" where
  "claimableBalance be a aid mode opts =
     (case getStakingBalances be a aid mode opts of
        (Inl e, cs) \<Rightarrow> (Inl e, cs)
      | (Inr balances, cs) \<Rightarrow> (Inr (claimableBalance_of balances), cs))"

text \<open>
  The three validations. The amount is the value of \<^verbatim>\<open>new Decimal(amount.toString())\<close>.
\<close>

definition validateCanStake ::
  "stake_backend \<Rightarrow> Address \<Rightarrow> Decimal \<Rightarrow> string \<Rightarrow> StakeOptionsMode \<Rightarrow> options \<Rightarrow>
     (error + unit) \<times> api_call list" where
  "validateCanStake be a amount aid mode opts =
     (case stakeableBalance be a aid mode opts of
        (Inl e, cs) \<Rightarrow> (Inl e, cs)
      | (Inr stakeable, cs) \<Rightarrow>
          if Decimal_lessThan stakeable amount
          then (Inl (InsufficientFunds ''stake'' amount stakeable), cs)
          else (Inr (), cs))"

definition validateCanUnstake ::
  "stake_backend \<Rightarrow> Address \<Rightarrow> Decimal \<Rightarrow> string \<Rightarrow> StakeOptionsMode \<Rightarrow> options \<Rightarrow>
     (error + unit) \<times> api_call list" where
  "validateCanUnstake be a amount aid mode opts =
     (case unstakeableBalance be a aid mode opts of
        (Inl e, cs) \<Rightarrow> (Inl e, cs)
      | (Inr unstakeable, cs) \<Rightarrow>
          if Decimal_lessThan unstakeable amount
          then (Inl (InsufficientFunds ''unstake'' amount unstakeable), cs)
          else (Inr (), cs))"

definition validateCanClaimStake ::
  "stake_backend \<Rightarrow> Address \<Rightarrow> Decimal \<Rightarrow> string \<Rightarrow> StakeOptionsMode \<Rightarrow> options \<Rightarrow>
     (error + unit) \<times> api_call list" where
  "validateCanClaimStake be a amount aid mode opts =
     (if aid = ''eth'' \<and> mode = NATIVE
      then (Inl (Error ''Claiming stake for ETH is not supported in native mode.''), [])
      else
        (case claimableBalance be a aid mode opts of
           (Inl e, cs) \<Rightarrow> (Inl e, cs)
         | (Inr claimable, cs) \<Rightarrow>
             if Decimal_lessThan claimable amount
             then (Inl (InsufficientFunds ''claim stake'' amount claimable), cs)
             else (Inr (), cs)))"

section \<open>External addresses: building a staking operation\<close>

text \<open>
  \<^verbatim>\<open>ExternalAddress.buildStakingOperation\<close>. The asset is fetched first; the mode is
  written into a copy of the options; unless the operation is amount-exempt the amount
  must be positive and is written in atomic units; then the build call is issued and
  its answer wrapped.
\<close>

definition buildStakingOperation ::
  "stake_backend \<Rightarrow> Address \<Rightarrow> Decimal \<Rightarrow> string \<Rightarrow> string \<Rightarrow> StakeOptionsMode \<Rightarrow> options \<Rightarrow>
     (error + StakingOperation) \<times> api_call list" where
  "buildStakingOperation be a amount aid action mode opts =
     (case Asset_fetch be (getNetworkId a) aid of
        (Inl e, cs) \<Rightarrow> (Inl e, cs)
      | (Inr asset, cs) \<Rightarrow>
          let newOptions = (copyOptions opts)(''mode'' \<mapsto> StakeOptionsMode_value mode)
          in
            (case
               (if \<not> IsDedicatedEthUnstakeV2Operation aid action mode newOptions then
                  let stakingAmount = amount
                  in if Decimal_lessThanOrEqualTo stakingAmount Decimal_zero
                     then Inl (Error ''Amount required greater than zero.'')
                     else
                       (case toAtomicAmount asset amount of
                          Inl e \<Rightarrow> Inl e
                        | Inr atomic \<Rightarrow> Inr (newOptions(''amount'' \<mapsto> BigInt_toString atomic)))
                else Inr newOptions) of
               Inl e \<Rightarrow> (Inl e, cs)
             | Inr requestOptions \<Rightarrow>
                 (case buildStakingOperation_api be (getNetworkId a) (primaryDenomination aid) (getId a)
                         action requestOptions of
                    Inl e \<Rightarrow>
                      (Inl e, cs @ [BuildStakingOperation (getNetworkId a) (primaryDenomination aid) (getId a)
                                      action requestOptions])
                  | Inr d \<Rightarrow>
                      (new_StakingOperation (Some d),
                       cs @ [BuildStakingOperation (getNetworkId a) (primaryDenomination aid) (getId a)
                               action requestOptions]))))"

definition buildStakeOperation ::
  "stake_backend \<Rightarrow> Address \<Rightarrow> Decimal \<Rightarrow> string \<Rightarrow> StakeOptionsMode \<Rightarrow> options \<Rightarrow>
     (error + StakingOperation) \<times> api_call list" where
  "buildStakeOperation be a amount aid mode opts =
     (case validateCanStake be a amount aid mode opts of
        (Inl e, cs) \<Rightarrow> (Inl e, cs)
      | (Inr u, cs) \<Rightarrow>
          (case buildStakingOperation be a amount aid ''stake'' mode opts of
             (r, cs') \<Rightarrow> (r, cs @ cs')))"

definition buildUnstakeOperation ::
  "stake_backend \<Rightarrow> Address \<Rightarrow> Decimal \<Rightarrow> string \<Rightarrow> StakeOptionsMode \<Rightarrow> options \<Rightarrow>
     (error + StakingOperation) \<times> api_call list" where
  "buildUnstakeOperation be a amount aid mode opts =
     (case
        (if \<not> IsDedicatedEthUnstakeV2Operation aid ''unstake'' mode opts
         then validateCanUnstake be a amount aid mode opts
         else (Inr (), [])) of
        (Inl e, cs) \<Rightarrow> (Inl e, cs)
      | (Inr u, cs) \<Rightarrow>
          (case buildStakingOperation be a amount aid ''unstake'' mode opts of
             (r, cs') \<Rightarrow> (r, cs @ cs')))"

definition buildClaimStakeOperation ::
  "stake_backend \<Rightarrow> Address \<Rightarrow> Decimal \<Rightarrow> string \<Rightarrow> StakeOptionsMode \<Rightarrow> options \<Rightarrow>
     (error + StakingOperation) \<times> api_call list" where
  "buildClaimStakeOperation be a amount aid mode opts =
     (case validateCanClaimStake be a amount aid mode opts of
        (Inl e, cs) \<Rightarrow> (Inl e, cs)
      | (Inr u, cs) \<Rightarrow>
          (case buildStakingOperation be a amount aid ''claim_stake'' mode opts of
             (r, cs') \<Rightarrow> (r, cs @ cs')))"

section \<open>Wallet addresses: creating a staking operation\<close>

text \<open>
  A wallet address: the ids of its model, and the key it signs with. The validations
  are the ones of \<^verbatim>\<open>Address\<close>, on the model's network and address ids.
\<close>

record WalletAddress =
  wallet_model_wallet_id :: string
  wallet_model_network_id :: string
  wallet_model_address_id :: string
  wallet_key :: signing_key

definition getWalletId :: "WalletAddress \<Rightarrow> string" where
  "getWalletId wa = wallet_model_wallet_id wa"

definition as_Address :: "WalletAddress \<Rightarrow> Address" where
  "as_Address wa =
     \<lparr>address_networkId = wallet_model_network_id wa, address_ident = wallet_model_address_id wa\<rparr>"

text \<open>
  \<^verbatim>\<open>createStakingOperationRequest\<close>. The mode and the amount are written into the
  caller's options object itself; the options of the request are that object. No check
  of the amount is made here.
\<close>

definition createStakingOperationRequest ::
  "stake_backend \<Rightarrow> WalletAddress \<Rightarrow> Decimal \<Rightarrow> string \<Rightarrow> string \<Rightarrow> StakeOptionsMode \<Rightarrow> options \<Rightarrow>
     (error + StakingOperation) \<times> api_call list" where
  "createStakingOperationRequest be wa amount aid action mode opts =
     (case Asset_fetch be (getNetworkId (as_Address wa)) aid of
        (Inl e, cs) \<Rightarrow> (Inl e, cs)
      | (Inr asset, cs) \<Rightarrow>
          let options1 = opts(''mode'' \<mapsto> StakeOptionsMode_value mode)
          in
            (case
               (if \<not> IsDedicatedEthUnstakeV2Operation aid action mode options1 then
                  (case toAtomicAmount asset amount of
                     Inl e \<Rightarrow> Inl e
                   | Inr atomic \<Rightarrow> Inr (options1(''amount'' \<mapsto> BigInt_toString atomic)))
                else Inr options1) of
               Inl e \<Rightarrow> (Inl e, cs)
             | Inr requestOptions \<Rightarrow>
                 (case createStakingOperation_api be (getWalletId wa) (getId (as_Address wa))
                         (getNetworkId (as_Address wa)) (primaryDenomination aid) action requestOptions of
                    Inl e \<Rightarrow>
                      (Inl e, cs @ [CreateStakingOperation (getWalletId wa) (getId (as_Address wa))
                                      (getNetworkId (as_Address wa)) (primaryDenomination aid) action
                                      requestOptions])
                  | Inr d \<Rightarrow>
                      (new_StakingOperation (Some d),
                       cs @ [CreateStakingOperation (getWalletId wa) (getId (as_Address wa))
                               (getNetworkId (as_Address wa)) (primaryDenomination aid) action
                               requestOptions]))))"

definition broadcastStakingOperationRequest ::
  "stake_backend \<Rightarrow> WalletAddress \<Rightarrow> string \<Rightarrow> string \<Rightarrow> nat \<Rightarrow>
     (error + StakingOperation) \<times> api_call list" where
  "broadcastStakingOperationRequest be wa stakingOperationID signedPayload transactionIndex =
     (case broadcastStakingOperation_api be (getWalletId wa) (getId (as_Address wa)) stakingOperationID
             signedPayload transactionIndex of
        Inl e \<Rightarrow>
          (Inl e, [BroadcastStakingOperation (getWalletId wa) (getId (as_Address wa)) stakingOperationID
                     signedPayload transactionIndex])
      | Inr d \<Rightarrow>
          (new_StakingOperation (Some d),
           [BroadcastStakingOperation (getWalletId wa) (getId (as_Address wa)) stakingOperationID
              signedPayload transactionIndex]))"

text \<open>
  The \<^verbatim>\<open>for\<close> loop of \<^verbatim>\<open>createStakingOperation\<close> over the transactions of the current
  operation, from index \<open>i\<close>: an unsigned transaction is signed and its signed payload,
  less its first two characters, is broadcast; the answer of the broadcast replaces the
  operation. The backend's states at the successive broadcasts are a script; the loop
  gives \<open>None\<close> when the script ends before it does. The rest of the script comes back
  with the result.
\<close>

function sign_and_broadcast ::
  "WalletAddress \<Rightarrow> stake_backend list \<Rightarrow> nat \<Rightarrow> StakingOperation \<Rightarrow>
     ((error + StakingOperation) \<times> stake_backend list \<times> api_call list) option" where
  "sign_and_broadcast wa bbes i op =
     (if i < length (getTransactions op) then
        let transaction = getTransactions op ! i
        in if \<not> isSigned transaction then
             (case bbes of
                [] \<Rightarrow> None
              | bb # bbes' \<Rightarrow>
                  (case wallet_key wa (getUnsignedPayload transaction) of
                     Inl e \<Rightarrow> Some (Inl e, bbes, [])
                   | Inr signedPayload \<Rightarrow>
                       (case broadcastStakingOperationRequest bb wa (getID op)
                               (drop 2 signedPayload) i of
                          (Inl e, cs) \<Rightarrow> Some (Inl e, bbes', cs)
                        | (Inr op', cs) \<Rightarrow>
                            (case sign_and_broadcast wa bbes' (Suc i) op' of
                               None \<Rightarrow> None
                             | Some (r, rest, cs') \<Rightarrow> Some (r, rest, cs @ cs')))))
           else sign_and_broadcast wa bbes (Suc i) op
      else Some (Inr op, bbes, []))"
  by pat_completeness auto
termination
  by (relation "measures [\<lambda>(wa, bbes, i, op). length bbes,
                          \<lambda>(wa, bbes, i, op). length (getTransactions op) - i]") auto

text \<open>
  The polling loop of \<^verbatim>\<open>createStakingOperation\<close>, on a script of clock readings (one
  at the top of each iteration), of backend states for the reloads and of backend
  states for the broadcasts.
\<close>

fun poll_loop ::
  "WalletAddress \<Rightarrow> int \<Rightarrow> int \<Rightarrow> int list \<Rightarrow> backend list \<Rightarrow> stake_backend list \<Rightarrow>
     StakingOperation \<Rightarrow> ((error + StakingOperation) \<times> api_call list) option" where
  "poll_loop wa startTime timeoutSeconds [] rbes bbes op = None"
| "poll_loop wa startTime timeoutSeconds (now1 # clock1) rbes bbes op =
     (if now1 - startTime < timeoutSeconds * 1000 then
        (case sign_and_broadcast wa bbes 0 op of
           None \<Rightarrow> None
         | Some (Inl e, rest, cs) \<Rightarrow> Some (Inl e, cs)
         | Some (Inr op1, rest, cs) \<Rightarrow>
             (case rbes of
                [] \<Rightarrow> None
              | rb # rbes' \<Rightarrow>
                  (case fst (reload rb op1) of
                     Inl e \<Rightarrow> Some (Inl e, cs @ snd (reload rb op1))
                   | Inr op2 \<Rightarrow>
                       if isTerminalState op2 then Some (Inr op2, cs @ snd (reload rb op1))
                       else
                         (case poll_loop wa startTime timeoutSeconds clock1 rbes' rest op2 of
                            None \<Rightarrow> None
                          | Some (r, cs') \<Rightarrow> Some (r, cs @ snd (reload rb op1) @ cs')))))
      else Some (Inl (Error ''Staking Operation timed out''), []))"

text \<open>
  \<^verbatim>\<open>createStakingOperation\<close>: the check of the amount, the create request, then the
  polling loop from the first clock reading.
\<close>

definition createStakingOperation ::
  "stake_backend \<Rightarrow> WalletAddress \<Rightarrow> Decimal \<Rightarrow> string \<Rightarrow> string \<Rightarrow> StakeOptionsMode \<Rightarrow> options \<Rightarrow>
     int \<Rightarrow> int list \<Rightarrow> backend list \<Rightarrow> stake_backend list \<Rightarrow>
     ((error + StakingOperation) \<times> api_call list) option" where
  "createStakingOperation be wa amount aid action mode opts timeoutSeconds clock rbes bbes =
     (if \<not> IsDedicatedEthUnstakeV2Operation aid action mode opts
         \<and> Decimal_lessThanOrEqualTo amount Decimal_zero
      then Some (Inl (Error ''Amount required greater than zero.''), [])
      else
        (case createStakingOperationRequest be wa amount aid action mode opts of
           (Inl e, cs) \<Rightarrow> Some (Inl e, cs)
         | (Inr stakingOperation, cs) \<Rightarrow>
             (case clock of
                [] \<Rightarrow> None
              | startTime # clock' \<Rightarrow>
                  (case poll_loop wa startTime timeoutSeconds clock' rbes bbes stakingOperation of
                     None \<Rightarrow> None
                   | Some (r, cs') \<Rightarrow> Some (r, cs @ cs')))))"

text \<open>
  The three entry points of a wallet address: the validation of \<^verbatim>\<open>Address\<close>, then
  \<^verbatim>\<open>createStakingOperation\<close>.
\<close>

definition createStake ::
  "stake_backend \<Rightarrow> WalletAddress \<Rightarrow> Decimal \<Rightarrow> string \<Rightarrow> StakeOptionsMode \<Rightarrow> options \<Rightarrow>
     int \<Rightarrow> int list \<Rightarrow> backend list \<Rightarrow> stake_backend list \<Rightarrow>
     ((error + StakingOperation) \<times> api_call list) option" where
  "createStake be wa amount aid mode opts timeoutSeconds clock rbes bbes =
     (case validateCanStake be (as_Address wa) amount aid mode opts of
        (Inl e, cs) \<Rightarrow> Some (Inl e, cs)
      | (Inr u, cs) \<Rightarrow>
          (case createStakingOperation be wa amount aid ''stake'' mode opts timeoutSeconds clock rbes bbes of
             None \<Rightarrow> None
           | Some (r, cs') \<Rightarrow> Some (r, cs @ cs')))"

definition createUnstake ::
  "stake_backend \<Rightarrow> WalletAddress \<Rightarrow> Decimal \<Rightarrow> string \<Rightarrow> StakeOptionsMode \<Rightarrow> options \<Rightarrow>
     int \<Rightarrow> int list \<Rightarrow> backend list \<Rightarrow> stake_backend list \<Rightarrow>
     ((error + StakingOperation) \<times> api_call list) option" where
  "createUnstake be wa amount aid mode opts timeoutSeconds clock rbes bbes =
     (case
        (if \<not> IsDedicatedEthUnstakeV2Operation aid ''unstake'' mode opts
         then validateCanUnstake be (as_Address wa) amount aid mode opts
         else (Inr (), [])) of
        (Inl e, cs) \<Rightarrow> Some (Inl e, cs)
      | (Inr u, cs) \<Rightarrow>
          (case createStakingOperation be wa amount aid ''unstake'' mode opts timeoutSeconds clock rbes bbes of
             None \<Rightarrow> None
           | Some (r, cs') \<Rightarrow> Some (r, cs @ cs')))"

definition createClaimStake ::
  "stake_backend \<Rightarrow> WalletAddress \<Rightarrow> Decimal \<Rightarrow> string \<Rightarrow> StakeOptionsMode \<Rightarrow> options \<Rightarrow>
     int \<Rightarrow> int list \<Rightarrow> backend list \<Rightarrow> stake_backend list \<Rightarrow>
     ((error + StakingOperation) \<times> api_call list) option" where
  "createClaimStake be wa amount aid mode opts timeoutSeconds clock rbes bbes =
     (case validateCanClaimStake be (as_Address wa) amount aid mode opts of
        (Inl e, cs) \<Rightarrow> Some (Inl e, cs)
      | (Inr u, cs) \<Rightarrow>
          (case createStakingOperation be wa amount aid ''claim_stake'' mode opts timeoutSeconds clock rbes bbes of
             None \<Rightarrow> None
           | Some (r, cs') \<Rightarrow> Some (r, cs @ cs')))"

section \<open>Scenario data\<close>

text \<open>Snapshots and backends for the closed instances of the theorems below.\<close>

definition unsigned_tx :: "string \<Rightarrow> TransactionModel" where
  "unsigned_tx p = \<lparr>unsigned_payload = p, signed_payload = None\<rparr>"

definition snapshot_with ::
  "string option \<Rightarrow> StakingOperationStatusEnum \<Rightarrow> string list \<Rightarrow> StakingOperationModel" where
  "snapshot_with w st ps =
     \<lparr>model_id = ''op-1'', network_id = ''ethereum-holesky'', address_id = ''0xabc'',
      wallet_id = w, status = st, model_transactions = Some (map unsigned_tx ps)\<rparr>"

definition backend_answering :: "StakingOperationModel \<Rightarrow> backend" where
  "backend_answering m =
     \<lparr>getExternalStakingOperation = (\<lambda>_ _ _. Inr m), getStakingOperation = (\<lambda>_ _ _. Inr m)\<rparr>"

text \<open>
  A backend for an address: an asset of the given decimals on every lookup, the given
  balances on every staking context, the given snapshot on every build, create and
  broadcast.
\<close>

definition stake_backend_with :: "nat \<Rightarrow> StakingBalances \<Rightarrow> StakingOperationModel \<Rightarrow> stake_backend" where
  "stake_backend_with d balances m =
     \<lparr>getAsset = (\<lambda>_ _. Inr (Some \<lparr>asset_model_network_id = ''ethereum-holesky'',
                                      asset_model_asset_id = Some ''eth'',
                                      asset_model_contract_address = None,
                                      asset_model_decimals = d\<rparr>)),
      getStakingContext = (\<lambda>_ _ _ _. Inr balances),
      buildStakingOperation_api = (\<lambda>_ _ _ _ _. Inr m),
      createStakingOperation_api = (\<lambda>_ _ _ _ _ _. Inr m),
      broadcastStakingOperation_api = (\<lambda>_ _ _ _ _. Inr m)\<rparr>"

text \<open>The same backend with an asset lookup that fails.\<close>

definition stake_backend_lookup_failing :: "StakingBalances \<Rightarrow> StakingOperationModel \<Rightarrow> stake_backend" where
  "stake_backend_lookup_failing balances m =
     \<lparr>getAsset = (\<lambda>_ _. Inl (RemoteError ''asset lookup failed'')),
      getStakingContext = (\<lambda>_ _ _ _. Inr balances),
      buildStakingOperation_api = (\<lambda>_ _ _ _ _. Inr m),
      createStakingOperation_api = (\<lambda>_ _ _ _ _ _. Inr m),
      broadcastStakingOperation_api = (\<lambda>_ _ _ _ _. Inr m)\<rparr>"

definition balances_of :: "Decimal \<Rightarrow> StakingBalances" where
  "balances_of x =
     \<lparr>stakeableBalance_of = x, unstakeableBalance_of = x,
      pendingClaimableBalance_of = x, claimableBalance_of = x\<rparr>"

definition external_address :: Address where
  "external_address = \<lparr>address_networkId = ''ethereum_holesky'', address_ident = ''0xabc''\<rparr>"

definition wallet_address :: WalletAddress where
  "wallet_address =
     \<lparr>wallet_model_wallet_id = ''wallet-1'', wallet_model_network_id = ''ethereum_holesky'',
      wallet_model_address_id = ''0xabc'', wallet_key = (\<lambda>p. Inr (''0x'' @ p))\<rparr>"

section \<open>Reconciliation as append of the unseen transactions\<close>

lemma foldl_push_filter:
  "foldl (\<lambda>acc t. if P t then acc @ [f t] else acc) acc0 xs = acc0 @ map f (filter P xs)"
  by (induction xs arbitrary: acc0) simp_all

lemma loadTransactionsFromModel_append:
  "transactions (loadTransactionsFromModel op) =
     transactions op @
     map new_Transaction
       (filter (\<lambda>t. unsigned_payload t \<notin> set (map getUnsignedPayload (transactions op)))
          (case model_transactions (model op) of None \<Rightarrow> [] | Some txs \<Rightarrow> txs))"
  by (cases "model_transactions (model op)")
     (simp_all add: loadTransactionsFromModel_def foldl_push_filter Let_def)

lemma loadTransactionsFromModel_model:
  "model (loadTransactionsFromModel op) = model op"
  by (cases "model_transactions (model op)")
     (simp_all add: loadTransactionsFromModel_def Let_def)

lemma reload_step:
  assumes "fst (reload be op) = Inr op1"
  shows "transactions op1 = transactions op @ map new_Transaction
           (filter (\<lambda>t. unsigned_payload t \<notin> set (local_payloads op))
              (case model_transactions (model op1) of None \<Rightarrow> [] | Some txs \<Rightarrow> txs))"
  using assms
  by (auto simp: reload_def loadTransactionsFromModel_append loadTransactionsFromModel_model local_payloads_def
      split: option.splits sum.splits if_splits)

lemma reload_payloads:
  assumes "fst (reload be op) = Inr op1"
  shows "local_payloads op1 = local_payloads op @
           filter (\<lambda>p. p \<notin> set (local_payloads op)) (snapshot_payloads (model op1))"
  using reload_step[OF assms]
  by (cases "model_transactions (model op1)")
     (simp_all add: local_payloads_def snapshot_payloads_def getUnsignedPayload_def new_Transaction_def filter_map comp_def)

lemma set_first_seen: "set (first_seen xs) = set xs"
  by (induction xs) auto

lemma distinct_first_seen: "distinct (first_seen xs)"
  by (induction xs) (auto simp: set_first_seen)

lemma first_seen_distinct: "distinct xs \<Longrightarrow> first_seen xs = xs"
  by (induction xs) (auto simp: filter_id_conv)

lemma first_seen_append:
  "first_seen (xs @ ys) = first_seen xs @ filter (\<lambda>y. y \<notin> set xs) (first_seen ys)"
proof (induction xs arbitrary: ys)
  case Nil
  then show ?case by simp
next
  case (Cons x xs)
  have "filter (\<lambda>y. y \<noteq> x) (filter (\<lambda>y. y \<notin> set xs) (first_seen ys))
      = filter (\<lambda>y. y \<notin> set (x # xs)) (first_seen ys)"
    by (auto intro: filter_cong)
  with Cons show ?case by simp
qed

lemma first_seen_absorb: "first_seen (first_seen xs @ ys) = first_seen (xs @ ys)"
  by (simp add: first_seen_append set_first_seen first_seen_distinct distinct_first_seen)

lemma first_seen_step:
  "distinct xs \<Longrightarrow> distinct ys \<Longrightarrow> xs @ filter (\<lambda>y. y \<notin> set xs) ys = first_seen (xs @ ys)"
  by (simp add: first_seen_append first_seen_distinct)

lemma reloads_first_seen:
  assumes "reloads op bes = Inr ops"
    and "distinct (local_payloads op)"
    and "\<forall>s\<in>set ops. distinct (snapshot_payloads (model s))"
  shows "local_payloads (last (op # ops)) =
           first_seen (local_payloads op @ concat (map (\<lambda>s. snapshot_payloads (model s)) ops))"
  using assms
proof (induction bes arbitrary: op ops)
  case Nil
  then show ?case by (simp add: first_seen_distinct)
next
  case (Cons be bes)
  from Cons.prems(1) obtain op1 ops1 where
    step: "fst (reload be op) = Inr op1" and rest: "reloads op1 bes = Inr ops1" and ops: "ops = op1 # ops1"
    by (auto split: sum.splits)
  have d1: "distinct (snapshot_payloads (model op1))" using Cons.prems(3) ops by simp
  have l1: "local_payloads op1 = first_seen (local_payloads op @ snapshot_payloads (model op1))"
    using reload_payloads[OF step] first_seen_step[OF Cons.prems(2) d1] by simp
  have "local_payloads (last (op1 # ops1)) =
          first_seen (local_payloads op1 @ concat (map (\<lambda>s. snapshot_payloads (model s)) ops1))"
    using Cons.IH[OF rest] l1 Cons.prems(3) ops by (simp add: distinct_first_seen)
  then show ?case using l1 ops by (simp add: first_seen_absorb)
qed

lemma reloads_prefix:
  assumes "reloads op bes = Inr ops"
  shows "\<forall>s\<in>set ops. \<exists>ys. transactions s = transactions op @ ys"
  using assms
proof (induction bes arbitrary: op ops)
  case Nil
  then show ?case by simp
next
  case (Cons be bes)
  from Cons.prems(1) obtain op1 ops1 where
    step: "fst (reload be op) = Inr op1" and rest: "reloads op1 bes = Inr ops1" and ops: "ops = op1 # ops1"
    by (auto split: sum.splits)
  obtain zs where zs: "transactions op1 = transactions op @ zs" using reload_step[OF step] by blast
  show ?case using Cons.IH[OF rest] zs ops by auto
qed

lemma reloads_last_superset:
  assumes "reloads op bes = Inr ops" and "superset_chain op ops" and "ops \<noteq> []"
  shows "set (local_payloads (last ops)) = set (snapshot_payloads (model (last ops)))"
  using assms
proof (induction bes arbitrary: op ops)
  case Nil
  then show ?case by simp
next
  case (Cons be bes)
  from Cons.prems(1) obtain op1 ops1 where
    step: "fst (reload be op) = Inr op1" and rest: "reloads op1 bes = Inr ops1" and ops: "ops = op1 # ops1"
    by (auto split: sum.splits)
  have sup: "set (local_payloads op) \<subseteq> set (snapshot_payloads (model op1))" and ch: "superset_chain op1 ops1"
    using Cons.prems(2) ops by simp_all
  show ?case
  proof (cases "ops1 = []")
    case True
    then show ?thesis using reload_payloads[OF step] sup ops by auto
  next
    case False
    then show ?thesis using Cons.IH[OF rest ch False] ops by simp
  qed
qed

subsection \<open>Reachable operations hold every payload of their snapshot\<close>

lemma sign_loop_payloads:
  "map getUnsignedPayload (fst (sign_loop key txs)) = map getUnsignedPayload txs"
  by (induction txs) (auto simp: sign_tx_def getUnsignedPayload_def split: sum.splits)

lemma new_StakingOperation_payloads:
  assumes "new_StakingOperation (Some m) = Inr op"
  shows "model op = m \<and> local_payloads op = snapshot_payloads m"
proof -
  have op: "op = loadTransactionsFromModel \<lparr>model = m, transactions = []\<rparr>"
    using assms by (simp add: new_StakingOperation_def)
  have "map getUnsignedPayload (map new_Transaction txs) = map unsigned_payload txs" for txs
    by (simp add: getUnsignedPayload_def new_Transaction_def)
  then show ?thesis
    unfolding op local_payloads_def snapshot_payloads_def
    by (cases "model_transactions m")
       (simp_all add: loadTransactionsFromModel_append loadTransactionsFromModel_model)
qed

lemma reachable_reconciled:
  "reachable op \<Longrightarrow> set (snapshot_payloads (model op)) \<subseteq> set (local_payloads op)"
proof (induction rule: reachable.induct)
  case (constructed m op)
  then show ?case using new_StakingOperation_payloads by simp
next
  case (reloaded op be op')
  show ?case using reload_payloads[OF reloaded(2)] by auto
next
  case (signed op key)
  then show ?case by (simp add: sign_def local_payloads_def sign_loop_payloads)
next
  case (signed_one op i key tx')
  from signed_one(3) have "getUnsignedPayload tx' = getUnsignedPayload (transactions op ! i)"
    by (auto simp: sign_tx_def getUnsignedPayload_def split: sum.splits)
  then have "map getUnsignedPayload ((transactions op)[i := tx']) = map getUnsignedPayload (transactions op)"
    using signed_one(2) by (simp add: map_update list_update_same_conv)
  with signed_one(4) show ?case by (simp add: local_payloads_def)
qed

lemma loadTransactionsFromModel_reconciled:
  assumes "set (snapshot_payloads (model op)) \<subseteq> set (local_payloads op)"
  shows "loadTransactionsFromModel op = op"
proof -
  have "filter (\<lambda>t. unsigned_payload t \<notin> set (map getUnsignedPayload (transactions op)))
          (case model_transactions (model op) of None \<Rightarrow> [] | Some txs \<Rightarrow> txs) = []"
    using assms
    by (auto simp: snapshot_payloads_def local_payloads_def filter_empty_conv split: option.splits)
  then have "transactions (loadTransactionsFromModel op) = transactions op"
    by (simp add: loadTransactionsFromModel_append)
  then show ?thesis using loadTransactionsFromModel_model[of op]
    by (intro StakingOperation.equality) (simp_all add: loadTransactionsFromModel_def Let_def split: option.splits)
qed

lemmas fixture_defs = unsigned_tx_def snapshot_with_def backend_answering_def
lemmas op_defs = reload_def loadTransactionsFromModel_def getWalletID_def getNetworkID_def getAddressID_def getID_def
  new_Transaction_def getUnsignedPayload_def local_payloads_def snapshot_payloads_def getStatus_def

section \<open>The polling loop\<close>

lemma wait_loop_returns_terminal:
  "wait_loop st t clock bes op = Some (Inr m, calls) \<Longrightarrow> status m = Complete \<or> status m = Failed"
proof (induction st t clock bes op arbitrary: calls rule: wait_loop.induct)
  case (1 st t bes op)
  then show ?case by simp
next
  case (2 st t now1 clock1 bes op)
  then show ?case
    by (auto simp: isTerminalState_def isCompleteState_def isFailedState_def getStatus_def
        split: if_splits list.splits sum.splits option.splits prod.splits)
qed

lemma reload_calls_external:
  "getWalletID op = None \<Longrightarrow>
   snd (reload be op) = [GetExternalStakingOperation (getNetworkID op) (getAddressID op) (getID op)]"
  by (simp add: reload_def split: sum.splits)

lemma wait_loop_first_call:
  assumes "wait_loop st t clock bes op = Some (Inr m, calls)" and "getWalletID op = None"
  shows "\<exists>rest. calls = GetExternalStakingOperation (getNetworkID op) (getAddressID op) (getID op) # rest"
  using assms
  by (cases clock; cases bes)
     (auto simp: reload_calls_external split: if_splits list.splits sum.splits option.splits prod.splits)

lemma wait_loop_terminal_now:
  assumes "now1 - st < t * 1000" and "fst (reload be op) = Inr op'" and "isTerminalState op'"
  shows "wait_loop st t (now1 # clock1) (be # bes) op = Some (Inr (model op'), snd (reload be op))"
  using assms by simp

lemma never_terminal_external:
  assumes "never_terminal be"
  shows "\<exists>d. getExternalStakingOperation be n a i = Inr d \<and> status d \<noteq> Complete \<and> status d \<noteq> Failed"
proof -
  from assms have "case getExternalStakingOperation be n a i of
           Inl e \<Rightarrow> False | Inr d \<Rightarrow> status d \<noteq> Complete \<and> status d \<noteq> Failed"
    unfolding never_terminal_def by blast
  then show ?thesis by (cases "getExternalStakingOperation be n a i") simp_all
qed

lemma never_terminal_wallet:
  assumes "never_terminal be"
  shows "\<exists>d. getStakingOperation be n a i = Inr d \<and> status d \<noteq> Complete \<and> status d \<noteq> Failed"
proof -
  from assms have "case getStakingOperation be n a i of
           Inl e \<Rightarrow> False | Inr d \<Rightarrow> status d \<noteq> Complete \<and> status d \<noteq> Failed"
    unfolding never_terminal_def by blast
  then show ?thesis by (cases "getStakingOperation be n a i") simp_all
qed

lemma reload_never_terminal:
  assumes "never_terminal be" and "getWalletID op \<noteq> Some [] \<or> \<not> isTerminalState op"
  shows "\<exists>op'. fst (reload be op) = Inr op' \<and> \<not> isTerminalState op'"
proof (cases "getWalletID op")
  case None
  from never_terminal_external[OF assms(1)] obtain d where
    "getExternalStakingOperation be (getNetworkID op) (getAddressID op) (getID op) = Inr d"
    "status d \<noteq> Complete" "status d \<noteq> Failed"
    by blast
  with None show ?thesis
    by (simp add: reload_def isTerminalState_def isCompleteState_def isFailedState_def getStatus_def
        loadTransactionsFromModel_model)
next
  case (Some w)
  show ?thesis
  proof (cases "w = []")
    case True
    with Some assms(2) show ?thesis
      by (simp add: reload_def isTerminalState_def isCompleteState_def isFailedState_def getStatus_def
          loadTransactionsFromModel_model)
  next
    case False
    from never_terminal_wallet[OF assms(1)] obtain d where
      "getStakingOperation be w (getAddressID op) (getID op) = Inr d"
      "status d \<noteq> Complete" "status d \<noteq> Failed"
      by blast
    with Some False show ?thesis
      by (simp add: reload_def isTerminalState_def isCompleteState_def isFailedState_def getStatus_def
          loadTransactionsFromModel_model)
  qed
qed

lemma wait_loop_timeout:
  assumes "\<forall>be\<in>set bes. never_terminal be"
    and "getWalletID op \<noteq> Some [] \<or> \<not> isTerminalState op"
    and "length clock \<le> 2 * length bes"
    and "\<exists>r\<in>set clock. r - st > t * 1000"
  shows "\<exists>calls. wait_loop st t clock bes op = Some (Inl (Error ''Staking operation timed out''), calls)"
  using assms
proof (induction st t clock bes op rule: wait_loop.induct)
  case (1 st t bes op)
  then show ?case by simp
next
  case (2 st t now1 clock1 bes op)
  show ?case
  proof (cases "now1 - st < t * 1000")
    case False
    then show ?thesis by simp
  next
    case top: True
    from "2.prems"(3) obtain be bes' where bes: "bes = be # bes'" by (cases bes) auto
    from "2.prems"(1) bes have nt: "never_terminal be" and nts: "\<forall>b\<in>set bes'. never_terminal b" by simp_all
    from reload_never_terminal[OF nt "2.prems"(2)] obtain op' where
      r: "fst (reload be op) = Inr op'" and nterm: "\<not> isTerminalState op'" by blast
    from "2.prems"(4) top obtain now2 clock2 where c1: "clock1 = now2 # clock2"
      by (cases clock1) auto
    show ?thesis
    proof (cases "now2 - st > t * 1000")
      case True
      with top bes r nterm c1 show ?thesis by simp
    next
      case after: False
      have len: "length clock2 \<le> 2 * length bes'" using "2.prems"(3) bes c1 by simp
      have ex: "\<exists>r\<in>set clock2. r - st > t * 1000" using "2.prems"(4) top after c1 by auto
      from "2.IH"[OF top bes r nterm c1 after nts _ len ex] nterm
      obtain calls where "wait_loop st t clock2 bes' op' = Some (Inl (Error ''Staking operation timed out''), calls)"
        by blast
      with top bes r nterm c1 after show ?thesis by simp
    qed
  qed
qed

lemma wait_loop_first_terminal:
  assumes "reloads op bes1 = Inr ops" and "ops \<noteq> []"
    and "\<forall>s\<in>set (butlast ops). \<not> isTerminalState s" and "isTerminalState (last ops)"
    and "2 * length ops - 1 \<le> length readings"
    and "\<forall>r\<in>set (take (2 * length ops - 1) readings). r - st < t * 1000"
  shows "\<exists>calls. wait_loop st t readings (bes1 @ later) op = Some (Inr (model (last ops)), calls)"
  using assms
proof (induction bes1 arbitrary: op ops readings)
  case Nil
  then show ?case by simp
next
  case (Cons be bes')
  from Cons.prems(1) obtain op1 ops1 where
    step: "fst (reload be op) = Inr op1" and rest: "reloads op1 bes' = Inr ops1" and ops: "ops = op1 # ops1"
    by (auto split: sum.splits)
  from Cons.prems(5) ops obtain now1 clock1 where rd: "readings = now1 # clock1"
    by (cases readings) auto
  have top: "now1 - st < t * 1000" using Cons.prems(6) ops rd by simp
  show ?case
  proof (cases "ops1 = []")
    case True
    with Cons.prems(4) ops have "isTerminalState op1" by simp
    with step top rd True ops show ?thesis by simp
  next
    case False
    with Cons.prems(3) ops have nt: "\<not> isTerminalState op1" by simp
    have len1: "0 < length ops1" using False by simp
    from Cons.prems(5) ops rd len1 obtain now2 clock2 where c1: "clock1 = now2 # clock2"
      by (cases clock1) auto
    have tk: "take (2 * length ops - 1) readings = now1 # now2 # take (2 * length ops1 - 1) clock2"
    proof -
      obtain n where n: "length ops1 = Suc n" using len1 by (cases "length ops1") auto
      show ?thesis using ops rd c1 n by simp
    qed
    have after: "\<not> now2 - st > t * 1000" using Cons.prems(6) tk by simp
    have len: "2 * length ops1 - 1 \<le> length clock2" using Cons.prems(5) ops rd c1 by simp
    have rs: "\<forall>r\<in>set (take (2 * length ops1 - 1) clock2). r - st < t * 1000"
      using Cons.prems(6) tk by simp
    have bl: "\<forall>s\<in>set (butlast ops1). \<not> isTerminalState s" using Cons.prems(3) ops False by simp
    have la: "isTerminalState (last ops1)" using Cons.prems(4) ops False by simp
    from Cons.IH[OF rest False bl la len rs]
    obtain calls where "wait_loop st t clock2 (bes' @ later) op1 = Some (Inr (model (last ops1)), calls)"
      by blast
    with step top rd c1 nt after ops False show ?thesis by simp
  qed
qed

section \<open>The consensus-layer exit builder\<close>

lemma addValidator_accumulates:
  "validatorPubKeys (foldl (\<lambda>b k. addValidator k b) b ks) =
     validatorPubKeys b @ filter (\<lambda>k. k \<notin> set (validatorPubKeys b)) (first_seen ks)"
proof (induction ks arbitrary: b)
  case Nil
  then show ?case by simp
next
  case (Cons k ks)
  show ?case
  proof (cases "k \<in> set (validatorPubKeys b)")
    case True
    then have "filter (\<lambda>x. x \<notin> set (validatorPubKeys b)) (filter (\<lambda>y. y \<noteq> k) (first_seen ks))
             = filter (\<lambda>x. x \<notin> set (validatorPubKeys b)) (first_seen ks)"
      by (auto intro: filter_cong)
    with True Cons.IH[of b] show ?thesis by (simp add: addValidator_def)
  next
    case False
    have "filter (\<lambda>x. x \<noteq> k \<and> x \<notin> set (validatorPubKeys b)) (first_seen ks)
        = filter (\<lambda>x. x \<notin> set (validatorPubKeys b) \<and> x \<noteq> k) (first_seen ks)"
      by (auto intro: filter_cong)
    with False Cons.IH[of "addValidator k b"] show ?thesis by (simp add: addValidator_def)
  qed
qed

lemma consensus_build_result:
  assumes "r < length h"
  shows "consensus_build b h (Some r) =
     (b, h @ [[''unstake_type'' \<mapsto> UnstakeTypeConsensus, ''validator_pub_keys'' \<mapsto> join '','' (validatorPubKeys b)],
              (h ! r) ++ [''unstake_type'' \<mapsto> UnstakeTypeConsensus, ''validator_pub_keys'' \<mapsto> join '','' (validatorPubKeys b)]],
      Suc (length h))"
  using assms
  by (simp add: consensus_build_def alloc_def Object_assign_def nth_append)

section \<open>Decimal arithmetic within the precision\<close>

lemma ndigits_le: "n < 10 ^ k \<Longrightarrow> 0 < k \<Longrightarrow> ndigits n \<le> k"
proof (induction k arbitrary: n)
  case 0
  then show ?case by simp
next
  case (Suc k)
  show ?case
  proof (cases "n < 10")
    case True
    then show ?thesis by (subst ndigits.simps) simp
  next
    case False
    then have k: "0 < k" using Suc.prems(1) by (cases k) auto
    have "n div 10 < 10 ^ k" using Suc.prems(1) by (simp add: less_mult_imp_div_less mult.commute)
    from Suc.IH[OF this k] False show ?thesis by (subst ndigits.simps) simp
  qed
qed

lemma ndigits_mult10: "0 < n \<Longrightarrow> ndigits (n * 10) = Suc (ndigits n)"
  by (subst ndigits.simps) simp

lemma ndigits_mult_pow10: "0 < n \<Longrightarrow> ndigits (n * 10 ^ m) = ndigits n + m"
proof (induction m)
  case 0
  then show ?case by simp
next
  case (Suc m)
  have "n * 10 ^ Suc m = (n * 10 ^ m) * 10" by simp
  moreover have "0 < n * 10 ^ m" using Suc.prems by simp
  ultimately show ?case using Suc ndigits_mult10 by presburger
qed

lemma finalise_scaled:
  assumes "0 \<le> c" and "ndigits (nat c) \<le> p"
  shows "\<exists>j\<le>m. finalise p (Dec (c * 10 ^ m) e) = Dec (c * 10 ^ (m - j)) (e + int j)"
proof (cases "c = 0")
  case True
  have "ndigits 0 \<le> p" using assms(2) True by simp
  with True show ?thesis by (intro exI[of _ 0]) (simp add: finalise_def)
next
  case False
  with assms(1) have pos: "0 < nat c" by simp
  have nat_eq: "nat \<bar>c * 10 ^ m\<bar> = nat c * 10 ^ m" using assms(1)
    by (simp add: nat_mult_distrib nat_power_eq abs_mult)
  have nd: "ndigits (nat \<bar>c * 10 ^ m\<bar>) = ndigits (nat c) + m"
    using ndigits_mult_pow10[OF pos] nat_eq by simp
  show ?thesis
  proof (cases "ndigits (nat c) + m \<le> p")
    case True
    with nd show ?thesis by (intro exI[of _ 0]) (simp add: finalise_def)
  next
    case over: False
    define k where "k = ndigits (nat c) + m - p"
    have km: "k \<le> m" using assms(2) over by (simp add: k_def)
    have split: "c * 10 ^ m = (c * 10 ^ (m - k)) * 10 ^ k"
      using km by (simp add: power_add[symmetric])
    have q: "\<bar>c * 10 ^ m\<bar> div 10 ^ k = c * 10 ^ (m - k)"
      using assms(1) by (subst split) (simp add: abs_mult)
    have r: "\<bar>c * 10 ^ m\<bar> mod 10 ^ k = 0"
      using assms(1) by (subst split) (simp add: abs_mult)
    have s: "sgn (c * 10 ^ m) = 1" using False assms(1) by (simp add: sgn_mult)
    have pw: "\<not> (10::int) ^ k \<le> 0" by (simp add: not_le)
    have "finalise p (Dec (c * 10 ^ m) e) = Dec (c * 10 ^ (m - k)) (e + int k)"
      using over nd q r s pw by (simp add: finalise_def Let_def k_def[symmetric])
    with km show ?thesis by blast
  qed
qed

lemma dividedBy_pow10:
  assumes "0 \<le> a"
  shows "Decimal_dividedBy (Dec a 0) (pow10 n) = Some (finalise 20 (Dec (a * 10 ^ 21) (- int n - 21)))"
proof -
  have one: "ndigits (Suc 0) = 1" by (subst ndigits.simps) simp
  have eq: "sgn a * (\<bar>a\<bar> * k) = a * k" for k
    using mult_sgn_abs[of a] by (metis mult.assoc)
  show ?thesis
    by (simp add: Decimal_dividedBy_def pow10_def precision_def one Let_def eq)
qed

lemma fromAtomicAmount_exact:
  assumes "0 \<le> c" and "c < 10 ^ 20"
  shows "\<exists>j\<le>m + 21. fromAtomicAmount asset (Decimal_of_BigInt (c * 10 ^ m))
           = Some (Dec (c * 10 ^ (m + 21 - j)) (int j - int (decimals asset) - 21))"
proof -
  have "nat c < 10 ^ 20" using assms(1,2) by (simp add: nat_less_iff)
  then have nd: "ndigits (nat c) \<le> 20" by (rule ndigits_le) simp
  have nn: "0 \<le> c * 10 ^ m" using assms(1) by simp
  have pw: "c * 10 ^ m * 10 ^ 21 = c * 10 ^ (m + 21)" by (simp only: power_add mult.assoc)
  have "fromAtomicAmount asset (Decimal_of_BigInt (c * 10 ^ m))
          = Some (finalise 20 (Dec (c * 10 ^ m * 10 ^ 21) (- int (decimals asset) - 21)))"
    unfolding fromAtomicAmount_def Decimal_of_BigInt_def by (rule dividedBy_pow10[OF nn])
  then have "fromAtomicAmount asset (Decimal_of_BigInt (c * 10 ^ m))
          = Some (finalise 20 (Dec (c * 10 ^ (m + 21)) (- int (decimals asset) - 21)))"
    by (simp only: pw)
  moreover from finalise_scaled[OF assms(1) nd, of "m + 21" "- int (decimals asset) - 21"]
  obtain j where "j \<le> m + 21"
    "finalise 20 (Dec (c * 10 ^ (m + 21)) (- int (decimals asset) - 21))
       = Dec (c * 10 ^ (m + 21 - j)) (- int (decimals asset) - 21 + int j)"
    by blast
  ultimately show ?thesis by (intro exI[of _ j]) (simp add: algebra_simps)
qed

lemma Decimal_equals_not_lessThan:
  "Decimal_equals x y \<Longrightarrow> \<not> Decimal_lessThan y x"
  by (simp add: Decimal_equals_def Decimal_lessThan_def Let_def min.commute)

lemma pow10_merge: "(c::int) * 10 ^ a * 10 ^ b = c * 10 ^ (a + b)"
  by (simp add: power_add)

lemma BigInt_of_toFixed_divisible:
  assumes "E < 0" and "C = D * 10 ^ nat (- E)"
  shows "BigInt_of_toFixed (Dec C E) = Inr D"
  using assms by (simp add: BigInt_of_toFixed_def)

lemma toAtomicAmount_exact_general:
  assumes "0 \<le> c" and "c < 10 ^ 20" and "- int (decimals asset) \<le> e + int z"
  shows "toAtomicAmount asset (Dec (c * 10 ^ z) e) = Inr (c * 10 ^ nat (e + int z + int (decimals asset)))"
proof -
  have "nat c < 10 ^ 20" using assms(1,2) by (simp add: nat_less_iff)
  then have nd: "ndigits (nat c) \<le> 20" by (rule ndigits_le) simp
  from finalise_scaled[OF assms(1) nd, of z "e + int (decimals asset)"]
  obtain j where j: "j \<le> z" and
    fin: "finalise 20 (Dec (c * 10 ^ z) (e + int (decimals asset)))
            = Dec (c * 10 ^ (z - j)) (e + int (decimals asset) + int j)"
    by blast
  have prod: "Decimal_times (Dec (c * 10 ^ z) e) (pow10 (decimals asset))
                = Dec (c * 10 ^ (z - j)) (e + int (decimals asset) + int j)"
    using fin by (simp add: Decimal_times_def pow10_def precision_def)
  show ?thesis
  proof (cases "0 \<le> e + int (decimals asset) + int j")
    case True
    have "z - j + nat (e + int (decimals asset) + int j) = nat (e + int z + int (decimals asset))"
      using True j by linarith
    then have "c * 10 ^ (z - j) * 10 ^ nat (e + int (decimals asset) + int j)
                 = c * 10 ^ nat (e + int z + int (decimals asset))"
      by (simp only: pow10_merge)
    with True prod show ?thesis
      by (simp add: toAtomicAmount_def BigInt_of_toFixed_def)
  next
    case False
    define k where "k = nat (- (e + int (decimals asset) + int j))"
    have kz: "k \<le> z - j" using False j assms(3) unfolding k_def by linarith
    have ex: "z - j - k = nat (e + int z + int (decimals asset))"
      using False j assms(3) unfolding k_def by linarith
    have split: "c * 10 ^ (z - j) = (c * 10 ^ (z - j - k)) * 10 ^ k"
    proof -
      have "z - j = z - j - k + k" using kz by linarith
      then have "c * 10 ^ (z - j) = c * 10 ^ (z - j - k + k)" by simp
      then show ?thesis by (simp only: pow10_merge)
    qed
    have neg: "e + int (decimals asset) + int j < 0" using False by simp
    have "BigInt_of_toFixed (Dec (c * 10 ^ (z - j)) (e + int (decimals asset) + int j))
            = Inr (c * 10 ^ (z - j - k))"
      by (rule BigInt_of_toFixed_divisible[OF neg]) (simp only: split k_def)
    with prod ex show ?thesis by (simp add: toAtomicAmount_def)
  qed
qed

text \<open>
  Within the precision both conversions are exact: a non-negative decimal of at most 20
  significant digits, in any representation \<open>c * 10 ^ z * 10 ^ e\<close> with \<open>c < 10 ^ 20\<close>,
  that has at most \<open>decimals\<close> fractional digits goes to the integer
  \<open>c * 10 ^ (e + z + decimals)\<close> and comes back as an equal decimal.
\<close>

lemma round_trip_within_precision:
  assumes "0 \<le> c" and "c < 10 ^ 20" and "- int (decimals asset) \<le> e + int z"
  shows "(case toAtomicAmount asset (Dec (c * 10 ^ z) e) of
            Inl err \<Rightarrow> False
          | Inr atomic \<Rightarrow>
              atomic = c * 10 ^ nat (e + int z + int (decimals asset))
            \<and> (case fromAtomicAmount asset (Decimal_of_BigInt atomic) of
                 None \<Rightarrow> False
               | Some d \<Rightarrow> Decimal_equals d (Dec (c * 10 ^ z) e)))"
proof -
  define m where "m = nat (e + int z + int (decimals asset))"
  have me: "int m = e + int z + int (decimals asset)" using assms(3) by (simp add: m_def)
  from fromAtomicAmount_exact[OF assms(1,2), of m asset] obtain j where
    j: "j \<le> m + 21" and
    inv: "fromAtomicAmount asset (Decimal_of_BigInt (c * 10 ^ m))
             = Some (Dec (c * 10 ^ (m + 21 - j)) (int j - int (decimals asset) - 21))"
    by blast
  have "Decimal_equals (Dec (c * 10 ^ (m + 21 - j)) (int j - int (decimals asset) - 21)) (Dec (c * 10 ^ z) e)"
  proof (cases "int j - int (decimals asset) - 21 \<le> e")
    case True
    have "m + 21 - j = z + nat (e - (int j - int (decimals asset) - 21))"
      using True j me by linarith
    then have "c * 10 ^ (m + 21 - j) = c * 10 ^ z * 10 ^ nat (e - (int j - int (decimals asset) - 21))"
      by (simp only: pow10_merge)
    with True show ?thesis by (simp add: Decimal_equals_def Let_def min_def)
  next
    case False
    have "m + 21 - j + nat (int j - int (decimals asset) - 21 - e) = z"
      using False j me by linarith
    then have "c * 10 ^ (m + 21 - j) * 10 ^ nat (int j - int (decimals asset) - 21 - e) = c * 10 ^ z"
      by (simp only: pow10_merge)
    with False show ?thesis by (simp add: Decimal_equals_def Let_def min_def)
  qed
  with inv toAtomicAmount_exact_general[OF assms] show ?thesis by (simp add: m_def)
qed

section \<open>Requests of the builders\<close>

lemma IsDedicated_mode_update:
  "IsDedicatedEthUnstakeV2Operation aid action mode (opts(''mode'' \<mapsto> v))
     = IsDedicatedEthUnstakeV2Operation aid action mode opts"
  by (simp add: IsDedicatedEthUnstakeV2Operation_def HasUnstakeTypeOption_def)

lemma Asset_fetch_calls:
  "snd (Asset_fetch be nid aid) = [GetAsset (normalizeNetwork nid) (primaryDenomination aid)]"
  by (simp add: Asset_fetch_def split: sum.splits)

lemma getStakingBalances_ok:
  assumes "getStakingContext be (getNetworkId a) (primaryDenomination aid) (getId a)
             ((copyOptions opts)(''mode'' \<mapsto> StakeOptionsMode_value mode)) = Inr balances"
  shows "getStakingBalances be a aid mode opts =
           (Inr balances, [GetStakingContext (getNetworkId a) (primaryDenomination aid) (getId a)
                             ((copyOptions opts)(''mode'' \<mapsto> StakeOptionsMode_value mode))])"
  using assms by (simp add: getStakingBalances_def Let_def)

lemma buildStakingOperation_nonpositive:
  assumes "\<not> IsDedicatedEthUnstakeV2Operation aid action mode opts"
    and "Decimal_lessThanOrEqualTo amount Decimal_zero"
  shows "buildStakingOperation be a amount aid action mode opts =
           (case fst (Asset_fetch be (getNetworkId a) aid) of
              Inl e \<Rightarrow> Inl e
            | Inr asset \<Rightarrow> Inl (Error ''Amount required greater than zero.''),
            [GetAsset (normalizeNetwork (getNetworkId a)) (primaryDenomination aid)])"
proof (cases "Asset_fetch be (getNetworkId a) aid")
  case (Pair r cs)
  then have cs: "cs = [GetAsset (normalizeNetwork (getNetworkId a)) (primaryDenomination aid)]"
    using Asset_fetch_calls[of be "getNetworkId a" aid] by simp
  show ?thesis using Pair cs assms
    by (cases r) (simp_all add: buildStakingOperation_def copyOptions_def IsDedicated_mode_update Let_def)
qed

lemma buildStakingOperation_exempt:
  assumes "IsDedicatedEthUnstakeV2Operation aid action mode opts"
    and "fst (Asset_fetch be (getNetworkId a) aid) = Inr asset"
  shows "snd (buildStakingOperation be a amount aid action mode opts) =
           [GetAsset (normalizeNetwork (getNetworkId a)) (primaryDenomination aid),
            BuildStakingOperation (getNetworkId a) (primaryDenomination aid) (getId a) action
              (opts(''mode'' \<mapsto> StakeOptionsMode_value mode))]"
proof (cases "Asset_fetch be (getNetworkId a) aid")
  case (Pair r cs)
  then have cs: "cs = [GetAsset (normalizeNetwork (getNetworkId a)) (primaryDenomination aid)]"
    using Asset_fetch_calls[of be "getNetworkId a" aid] by simp
  show ?thesis using Pair cs assms
    by (simp add: buildStakingOperation_def copyOptions_def IsDedicated_mode_update Let_def
        split: sum.splits)
qed

lemma buildStakingOperation_amount:
  assumes "\<not> IsDedicatedEthUnstakeV2Operation aid action mode opts"
    and "fst (Asset_fetch be (getNetworkId a) aid) = Inr asset"
    and "\<not> Decimal_lessThanOrEqualTo amount Decimal_zero"
    and "toAtomicAmount asset amount = Inr atomic"
  shows "snd (buildStakingOperation be a amount aid action mode opts) =
           [GetAsset (normalizeNetwork (getNetworkId a)) (primaryDenomination aid),
            BuildStakingOperation (getNetworkId a) (primaryDenomination aid) (getId a) action
              (opts(''mode'' \<mapsto> StakeOptionsMode_value mode, ''amount'' \<mapsto> BigInt_toString atomic))]"
proof (cases "Asset_fetch be (getNetworkId a) aid")
  case (Pair r cs)
  then have cs: "cs = [GetAsset (normalizeNetwork (getNetworkId a)) (primaryDenomination aid)]"
    using Asset_fetch_calls[of be "getNetworkId a" aid] by simp
  show ?thesis using Pair cs assms
    by (simp add: buildStakingOperation_def copyOptions_def IsDedicated_mode_update Let_def
        split: sum.splits)
qed

lemma createStakingOperationRequest_exempt:
  assumes "IsDedicatedEthUnstakeV2Operation aid action mode opts"
    and "fst (Asset_fetch be (getNetworkId (as_Address wa)) aid) = Inr asset"
  shows "snd (createStakingOperationRequest be wa amount aid action mode opts) =
           [GetAsset (normalizeNetwork (getNetworkId (as_Address wa))) (primaryDenomination aid),
            CreateStakingOperation (getWalletId wa) (getId (as_Address wa)) (getNetworkId (as_Address wa))
              (primaryDenomination aid) action (opts(''mode'' \<mapsto> StakeOptionsMode_value mode))]"
proof (cases "Asset_fetch be (getNetworkId (as_Address wa)) aid")
  case (Pair r cs)
  then have cs: "cs = [GetAsset (normalizeNetwork (getNetworkId (as_Address wa))) (primaryDenomination aid)]"
    using Asset_fetch_calls[of be "getNetworkId (as_Address wa)" aid] by simp
  show ?thesis using Pair cs assms
    by (simp add: createStakingOperationRequest_def IsDedicated_mode_update Let_def
        split: sum.splits)
qed

lemma createStakingOperationRequest_amount:
  assumes "\<not> IsDedicatedEthUnstakeV2Operation aid action mode opts"
    and "fst (Asset_fetch be (getNetworkId (as_Address wa)) aid) = Inr asset"
    and "toAtomicAmount asset amount = Inr atomic"
  shows "snd (createStakingOperationRequest be wa amount aid action mode opts) =
           [GetAsset (normalizeNetwork (getNetworkId (as_Address wa))) (primaryDenomination aid),
            CreateStakingOperation (getWalletId wa) (getId (as_Address wa)) (getNetworkId (as_Address wa))
              (primaryDenomination aid) action
              (opts(''mode'' \<mapsto> StakeOptionsMode_value mode, ''amount'' \<mapsto> BigInt_toString atomic))]"
proof (cases "Asset_fetch be (getNetworkId (as_Address wa)) aid")
  case (Pair r cs)
  then have cs: "cs = [GetAsset (normalizeNetwork (getNetworkId (as_Address wa))) (primaryDenomination aid)]"
    using Asset_fetch_calls[of be "getNetworkId (as_Address wa)" aid] by simp
  show ?thesis using Pair cs assms
    by (simp add: createStakingOperationRequest_def IsDedicated_mode_update Let_def
        split: sum.splits)
qed

lemma buildStakingOperation_request:
  assumes "BuildStakingOperation n p i act ropts \<in> set (snd (buildStakingOperation be a amount aid action mode opts))"
  shows "if IsDedicatedEthUnstakeV2Operation aid action mode opts
         then ropts = opts(''mode'' \<mapsto> StakeOptionsMode_value mode)
         else \<exists>asset atomic. fst (Asset_fetch be (getNetworkId a) aid) = Inr asset
                \<and> toAtomicAmount asset amount = Inr atomic
                \<and> ropts = opts(''mode'' \<mapsto> StakeOptionsMode_value mode, ''amount'' \<mapsto> BigInt_toString atomic)"
proof (cases "Asset_fetch be (getNetworkId a) aid")
  case (Pair r cs)
  then have cs: "cs = [GetAsset (normalizeNetwork (getNetworkId a)) (primaryDenomination aid)]"
    using Asset_fetch_calls[of be "getNetworkId a" aid] by simp
  show ?thesis using Pair cs assms
    by (cases r)
       (auto simp: buildStakingOperation_def copyOptions_def IsDedicated_mode_update Let_def
        split: sum.splits if_splits)
qed

lemma createStakingOperationRequest_request:
  assumes "CreateStakingOperation w ad n p act ropts
             \<in> set (snd (createStakingOperationRequest be wa amount aid action mode opts))"
  shows "if IsDedicatedEthUnstakeV2Operation aid action mode opts
         then ropts = opts(''mode'' \<mapsto> StakeOptionsMode_value mode)
         else \<exists>asset atomic. fst (Asset_fetch be (getNetworkId (as_Address wa)) aid) = Inr asset
                \<and> toAtomicAmount asset amount = Inr atomic
                \<and> ropts = opts(''mode'' \<mapsto> StakeOptionsMode_value mode, ''amount'' \<mapsto> BigInt_toString atomic)"
proof (cases "Asset_fetch be (getNetworkId (as_Address wa)) aid")
  case (Pair r cs)
  then have cs: "cs = [GetAsset (normalizeNetwork (getNetworkId (as_Address wa))) (primaryDenomination aid)]"
    using Asset_fetch_calls[of be "getNetworkId (as_Address wa)" aid] by simp
  show ?thesis using Pair cs assms
    by (cases r)
       (auto simp: createStakingOperationRequest_def IsDedicated_mode_update Let_def
        split: sum.splits if_splits)
qed

lemmas stake_defs = buildStakingOperation_def createStakingOperationRequest_def createStakingOperation_def
  Asset_fetch_def fromModel_def toLowerCase_def toAssetId_def normalizeNetwork_def primaryDenomination_def
  assets_Eth_def assets_Wei_def assets_Gwei_def GWEI_DECIMALS_def copyOptions_def
  IsDedicatedEthUnstakeV2Operation_def HasUnstakeTypeOption_def UnstakeTypeConsensus_def UnstakeTypeExecution_def
  getNetworkId_def getId_def getWalletId_def as_Address_def
  validateCanStake_def validateCanUnstake_def validateCanClaimStake_def
  stakeableBalance_def unstakeableBalance_def claimableBalance_def getStakingBalances_def
  new_StakingOperation_def

lemmas decimal_defs = toAtomicAmount_def fromAtomicAmount_def Decimal_times_def Decimal_dividedBy_def
  Decimal_lessThan_def Decimal_lessThanOrEqualTo_def Decimal_equals_def Decimal_zero_def Decimal_of_BigInt_def
  pow10_def finalise_def precision_def BigInt_of_toFixed_def BigInt_toString_def ndigits.simps

lemmas stake_fixture_defs = stake_backend_with_def balances_of_def external_address_def wallet_address_def

section \<open>Reconciliation over repeated reloads\<close>

text \<open>
  Claim C1, as amended. Take a staking operation whose local list holds no unsigned payload
  twice, and a sequence of successful \<^verbatim>\<open>reload()\<close> calls in which every snapshot lists
  no unsigned payload twice and lists at least the payloads held locally just before it
  was fetched. Then the local list after the last reload holds every payload once, in
  first-seen order (the local list, then each snapshot in turn); its payloads are those
  of the last snapshot; and the list before the first reload is a prefix of the list
  after every reload: no local entry is removed, reordered or replaced.
\<close>

theorem reload_reconciliation_first_seen:
  assumes "reloads op bes = Inr ops"
    and "distinct (local_payloads op)"
    and "\<forall>s\<in>set ops. distinct (snapshot_payloads (model s))"
    and "superset_chain op ops"
  shows "local_payloads (last (op # ops)) =
           first_seen (local_payloads op @ concat (map (\<lambda>s. snapshot_payloads (model s)) ops))
       \<and> distinct (local_payloads (last (op # ops)))
       \<and> (ops \<noteq> [] \<longrightarrow> set (local_payloads (last ops)) = set (snapshot_payloads (model (last ops))))
       \<and> (\<forall>s\<in>set ops. \<exists>ys. transactions s = transactions op @ ys)"
  using reloads_first_seen[OF assms(1-3)] reloads_prefix[OF assms(1)]
    reloads_last_superset[OF assms(1) assms(4)]
  by (simp add: distinct_first_seen)

theorem reload_reconciliation_first_seen_witness:
  "reloads
     \<lparr>model = snapshot_with None (Pending ''initialized'') [''a''],
      transactions = [\<lparr>tx_model = \<lparr>unsigned_payload = ''a'', signed_payload = Some ''0xsigned''\<rparr>\<rparr>]\<rparr>
     [backend_answering (snapshot_with None (Pending ''initialized'') [''a'', ''b'']),
      backend_answering (snapshot_with None Complete [''b'', ''a'', ''c''])]
   = Inr [\<lparr>model = snapshot_with None (Pending ''initialized'') [''a'', ''b''],
           transactions = [\<lparr>tx_model = \<lparr>unsigned_payload = ''a'', signed_payload = Some ''0xsigned''\<rparr>\<rparr>,
                           new_Transaction (unsigned_tx ''b'')]\<rparr>,
          \<lparr>model = snapshot_with None Complete [''b'', ''a'', ''c''],
           transactions = [\<lparr>tx_model = \<lparr>unsigned_payload = ''a'', signed_payload = Some ''0xsigned''\<rparr>\<rparr>,
                           new_Transaction (unsigned_tx ''b''), new_Transaction (unsigned_tx ''c'')]\<rparr>]
   \<and> first_seen ([''a''] @ concat [[''a'', ''b''], [''b'', ''a'', ''c'']]) = [''a'', ''b'', ''c'']"
  (is "reloads ?op0 ?bes = Inr ?ops \<and> _")
proof -
  have run: "reloads ?op0 ?bes = Inr ?ops"
    by (simp add: op_defs fixture_defs)
  have d0: "distinct (local_payloads ?op0)"
    by (simp add: op_defs)
  have ds: "\<forall>s\<in>set ?ops. distinct (snapshot_payloads (model s))"
    by (simp add: op_defs fixture_defs)
  have ch: "superset_chain ?op0 ?ops"
    by (simp add: op_defs fixture_defs)
  from reload_reconciliation_first_seen[OF run d0 ds ch] run
  show ?thesis by (simp add: op_defs fixture_defs)
qed

text \<open>
  The claim as stated, for any snapshot, fails: the set of known payloads is computed
  once, before the loop over the snapshot, so a snapshot that lists the payload \<open>a\<close>
  twice has both entries appended to an empty local list.
\<close>

theorem reload_duplicate_payload_counterexample:
  "fst (reload (backend_answering (snapshot_with None (Pending ''initialized'') [''a'', ''a'']))
         \<lparr>model = snapshot_with None (Pending ''initialized'') [], transactions = []\<rparr>)
   = Inr \<lparr>model = snapshot_with None (Pending ''initialized'') [''a'', ''a''],
          transactions = [new_Transaction (unsigned_tx ''a''), new_Transaction (unsigned_tx ''a'')]\<rparr>
   \<and> set (local_payloads \<lparr>model = snapshot_with None (Pending ''initialized'') [], transactions = []\<rparr>)
       \<subseteq> set (snapshot_payloads (snapshot_with None (Pending ''initialized'') [''a'', ''a'']))
   \<and> \<not> distinct (local_payloads
         \<lparr>model = snapshot_with None (Pending ''initialized'') [''a'', ''a''],
          transactions = [new_Transaction (unsigned_tx ''a''), new_Transaction (unsigned_tx ''a'')]\<rparr>)"
  by (simp add: op_defs fixture_defs)

section \<open>Status after a reload\<close>

text \<open>
  Claim C2, as amended. For a staking operation whose status is Complete or Failed, a
  successful \<^verbatim>\<open>reload()\<close> stores the snapshot it fetched, whole, so that the status
  afterwards is the status of that snapshot; it keeps the stored snapshot when it
  fetched none (empty-string wallet id). The container has no guard of its own: the
  status stays at the terminal value exactly when the backend's snapshot reports that
  value.
\<close>

theorem reload_status_follows_snapshot:
  assumes "isTerminalState op" and "fst (reload be op) = Inr op'"
  shows "model op' = (case fetched_snapshot be op of Some (Inr d) \<Rightarrow> d | _ \<Rightarrow> model op)
       \<and> getStatus op' = (case fetched_snapshot be op of Some (Inr d) \<Rightarrow> status d | _ \<Rightarrow> getStatus op)"
  using assms(2)
  by (auto simp: reload_def fetched_snapshot_def getStatus_def loadTransactionsFromModel_model
      split: option.splits sum.splits if_splits)

theorem reload_status_follows_snapshot_witness:
  "isTerminalState \<lparr>model = snapshot_with None Complete [''a''], transactions = [new_Transaction (unsigned_tx ''a'')]\<rparr>
   \<and> fst (reload (backend_answering (snapshot_with None Complete [''a'', ''b'']))
         \<lparr>model = snapshot_with None Complete [''a''], transactions = [new_Transaction (unsigned_tx ''a'')]\<rparr>)
     = Inr \<lparr>model = snapshot_with None Complete [''a'', ''b''],
            transactions = [new_Transaction (unsigned_tx ''a''), new_Transaction (unsigned_tx ''b'')]\<rparr>
   \<and> getStatus \<lparr>model = snapshot_with None Complete [''a'', ''b''],
            transactions = [new_Transaction (unsigned_tx ''a''), new_Transaction (unsigned_tx ''b'')]\<rparr> = Complete"
  (is "isTerminalState ?op \<and> fst (reload ?be ?op) = Inr ?op' \<and> _")
proof -
  have t: "isTerminalState ?op"
    by (simp add: isTerminalState_def isCompleteState_def op_defs fixture_defs)
  have r: "fst (reload ?be ?op) = Inr ?op'"
    by (simp add: op_defs fixture_defs)
  from reload_status_follows_snapshot[OF t r] t r
  show ?thesis by (simp add: fetched_snapshot_def op_defs fixture_defs)
qed

text \<open>
  The claim as stated fails: a Complete operation reloaded against a backend that
  answers with a pending snapshot is pending afterwards.
\<close>

theorem reload_terminal_status_regresses_counterexample:
  "isTerminalState \<lparr>model = snapshot_with None Complete [], transactions = []\<rparr>
   \<and> fst (reload (backend_answering (snapshot_with None (Pending ''initialized'') []))
         \<lparr>model = snapshot_with None Complete [], transactions = []\<rparr>)
     = Inr \<lparr>model = snapshot_with None (Pending ''initialized'') [], transactions = []\<rparr>
   \<and> getStatus \<lparr>model = snapshot_with None (Pending ''initialized'') [], transactions = []\<rparr> = Pending ''initialized''
   \<and> \<not> isTerminalState \<lparr>model = snapshot_with None (Pending ''initialized'') [], transactions = []\<rparr>"
  by (simp add: isTerminalState_def isCompleteState_def isFailedState_def op_defs fixture_defs)

section \<open>Reload and fetch with an empty-string wallet id\<close>

text \<open>
  Claim C10. For every staking operation that can exist (constructed, then reloaded and
  signed any number of times) whose wallet id is the empty string, \<^verbatim>\<open>reload()\<close> issues
  no backend call, neither on the external nor on the wallet path, and returns the
  operation as it was: same snapshot, same local transaction list. The static
  \<^verbatim>\<open>fetch\<close> with an empty-string wallet id throws "Invalid wallet ID" without a call.
\<close>

theorem reload_empty_wallet_id:
  assumes "reachable op" and "getWalletID op = Some []"
  shows "reload be op = (Inr op, [])
       \<and> fetched_snapshot be op = None
       \<and> fetch be networkId addressId ident (Some []) = (Inl (Error ''Invalid wallet ID''), [])"
  using assms loadTransactionsFromModel_reconciled[OF reachable_reconciled[OF assms(1)]]
  by (simp add: reload_def fetch_def fetched_snapshot_def)

theorem reload_empty_wallet_id_witness:
  "reachable \<lparr>model = snapshot_with (Some []) (Pending ''initialized'') [''a''],
              transactions = [new_Transaction (unsigned_tx ''a'')]\<rparr>
   \<and> reload (backend_answering (snapshot_with None Complete [''a'', ''b'']))
        \<lparr>model = snapshot_with (Some []) (Pending ''initialized'') [''a''],
         transactions = [new_Transaction (unsigned_tx ''a'')]\<rparr>
     = (Inr \<lparr>model = snapshot_with (Some []) (Pending ''initialized'') [''a''],
             transactions = [new_Transaction (unsigned_tx ''a'')]\<rparr>, [])
   \<and> fetch (backend_answering (snapshot_with None Complete [''a'', ''b''])) ''ethereum-holesky'' ''0xabc'' ''op-1'' (Some [])
     = (Inl (Error ''Invalid wallet ID''), [])"
  (is "reachable ?op \<and> _")
proof -
  have "new_StakingOperation (Some (snapshot_with (Some []) (Pending ''initialized'') [''a''])) = Inr ?op"
    by (simp add: new_StakingOperation_def op_defs fixture_defs)
  then have r: "reachable ?op" by (rule reachable.constructed)
  have w: "getWalletID ?op = Some []" by (simp add: op_defs fixture_defs)
  from reload_empty_wallet_id[OF r w] r show ?thesis by simp
qed

section \<open>Waiting on a staking operation\<close>

text \<open>
  Claim C8. \<^verbatim>\<open>wait\<close> on an operation whose wallet id is set fails at once, with no
  reload (no backend call). On an operation without a wallet id: whatever it returns is
  a snapshot with a terminal status, obtained after at least one reload through the
  external path; in every iteration entered before the deadline, a reload that yields a
  terminal status makes the loop return that snapshot at once; when the reloads of a
  run give non-terminal snapshots and then a terminal one, with the clock readings of
  those iterations before the deadline, \<^verbatim>\<open>wait\<close> returns that first terminal snapshot;
  and against a backend that never reports a terminal status, as soon as the script of
  clock readings holds one later than the deadline (counted from the first reading,
  taken at loop entry) the call ends with the timeout error.
\<close>

theorem wait_behaviour:
  "(getWalletID op \<noteq> None \<longrightarrow>
      wait t clock bes op = Some (Inl (Error ''cannot wait on staking operation for wallet address.''), []))
 \<and> (wait t clock bes op = Some (Inr m, calls) \<longrightarrow>
      getWalletID op = None \<and> (status m = Complete \<or> status m = Failed)
      \<and> (\<exists>rest. calls = GetExternalStakingOperation (getNetworkID op) (getAddressID op) (getID op) # rest))
 \<and> (now - st < t * 1000 \<and> fst (reload be op) = Inr op' \<and> isTerminalState op' \<longrightarrow>
      wait_loop st t (now # readings') (be # bes') op = Some (Inr (model op'), snd (reload be op)))
 \<and> (getWalletID op = None \<and> clock = st # readings \<and> reloads op script = Inr ops \<and> ops \<noteq> []
      \<and> (\<forall>s\<in>set (butlast ops). \<not> isTerminalState s) \<and> isTerminalState (last ops)
      \<and> 2 * length ops - 1 \<le> length readings
      \<and> (\<forall>r\<in>set (take (2 * length ops - 1) readings). r - st < t * 1000) \<longrightarrow>
      (\<exists>cs. wait t clock (script @ later) op = Some (Inr (model (last ops)), cs)))
 \<and> (getWalletID op = None \<and> (\<forall>b\<in>set bes. never_terminal b) \<and> clock = st # readings
      \<and> length readings \<le> 2 * length bes \<and> (\<exists>r\<in>set readings. r - st > t * 1000) \<longrightarrow>
      (\<exists>cs. wait t clock bes op = Some (Inl (Error ''Staking operation timed out''), cs)))"
proof (intro conjI impI)
  assume "getWalletID op \<noteq> None"
  then show "wait t clock bes op = Some (Inl (Error ''cannot wait on staking operation for wallet address.''), [])"
    by (simp add: wait_def)
next
  assume w: "wait t clock bes op = Some (Inr m, calls)"
  then show none: "getWalletID op = None"
    by (simp add: wait_def split: if_splits)
  from w none obtain s0 rs where "wait_loop s0 t rs bes op = Some (Inr m, calls)"
    by (cases clock) (simp_all add: wait_def)
  then show "status m = Complete \<or> status m = Failed"
    and "\<exists>rest. calls = GetExternalStakingOperation (getNetworkID op) (getAddressID op) (getID op) # rest"
    using wait_loop_returns_terminal wait_loop_first_call[OF _ none] by blast+
next
  assume "now - st < t * 1000 \<and> fst (reload be op) = Inr op' \<and> isTerminalState op'"
  then show "wait_loop st t (now # readings') (be # bes') op = Some (Inr (model op'), snd (reload be op))"
    using wait_loop_terminal_now by blast
next
  assume a: "getWalletID op = None \<and> clock = st # readings \<and> reloads op script = Inr ops \<and> ops \<noteq> []
      \<and> (\<forall>s\<in>set (butlast ops). \<not> isTerminalState s) \<and> isTerminalState (last ops)
      \<and> 2 * length ops - 1 \<le> length readings
      \<and> (\<forall>r\<in>set (take (2 * length ops - 1) readings). r - st < t * 1000)"
  then have "\<exists>cs. wait_loop st t readings (script @ later) op = Some (Inr (model (last ops)), cs)"
    by (intro wait_loop_first_terminal) simp_all
  with a show "\<exists>cs. wait t clock (script @ later) op = Some (Inr (model (last ops)), cs)"
    by (simp add: wait_def)
next
  assume a: "getWalletID op = None \<and> (\<forall>b\<in>set bes. never_terminal b) \<and> clock = st # readings
      \<and> length readings \<le> 2 * length bes \<and> (\<exists>r\<in>set readings. r - st > t * 1000)"
  then have "\<exists>cs. wait_loop st t readings bes op = Some (Inl (Error ''Staking operation timed out''), cs)"
    by (intro wait_loop_timeout) simp_all
  with a show "\<exists>cs. wait t clock bes op = Some (Inl (Error ''Staking operation timed out''), cs)"
    by (simp add: wait_def)
qed

theorem wait_behaviour_witness:
  "wait 3 [0, 1000] [backend_answering (snapshot_with None Complete [])]
     \<lparr>model = snapshot_with (Some ''wallet-1'') (Pending ''initialized'') [], transactions = []\<rparr>
   = Some (Inl (Error ''cannot wait on staking operation for wallet address.''), [])
 \<and> wait 3 [0, 1000, 2000, 2500]
     [backend_answering (snapshot_with None (Pending ''initialized'') []),
      backend_answering (snapshot_with None Complete [])]
     \<lparr>model = snapshot_with None (Pending ''initialized'') [], transactions = []\<rparr>
   = Some (Inr (snapshot_with None Complete []),
           [GetExternalStakingOperation ''ethereum-holesky'' ''0xabc'' ''op-1'',
            GetExternalStakingOperation ''ethereum-holesky'' ''0xabc'' ''op-1''])
 \<and> never_terminal (backend_answering (snapshot_with None (Pending ''initialized'') []))
 \<and> wait 3 [0, 1000, 2000, 3000, 4000]
     [backend_answering (snapshot_with None (Pending ''initialized'') []),
      backend_answering (snapshot_with None (Pending ''initialized'') [])]
     \<lparr>model = snapshot_with None (Pending ''initialized'') [], transactions = []\<rparr>
   = Some (Inl (Error ''Staking operation timed out''),
           [GetExternalStakingOperation ''ethereum-holesky'' ''0xabc'' ''op-1''])"
proof -
  let ?pending = "backend_answering (snapshot_with None (Pending ''initialized'') [])"
  let ?complete = "backend_answering (snapshot_with None Complete [])"
  let ?op = "\<lparr>model = snapshot_with None (Pending ''initialized'') [], transactions = []\<rparr>"
  let ?done = "\<lparr>model = snapshot_with None Complete [], transactions = []\<rparr>"
  have wallet: "getWalletID \<lparr>model = snapshot_with (Some ''wallet-1'') (Pending ''initialized'') [],
                             transactions = []\<rparr> \<noteq> None"
    by (simp add: op_defs fixture_defs)
  note refused = wait_behaviour[where t = 3 and clock = "[0, 1000]" and bes = "[?complete]",
      THEN conjunct1, THEN mp, OF wallet]
  have ext: "getWalletID ?op = None"
    by (simp add: op_defs fixture_defs)
  have run: "reloads ?op [?pending, ?complete] = Inr [?op, ?done]"
    by (simp add: op_defs fixture_defs)
  have pend: "\<forall>s\<in>set (butlast [?op, ?done]). \<not> isTerminalState s"
    by (simp add: isTerminalState_def isCompleteState_def isFailedState_def op_defs fixture_defs)
  have fin: "isTerminalState (last [?op, ?done])"
    by (simp add: isTerminalState_def isCompleteState_def isFailedState_def op_defs fixture_defs)
  have early: "\<forall>r\<in>set (take (2 * length [?op, ?done] - 1) [1000, 2000, 2500::int]). r - 0 < 3 * 1000"
    by simp
  have "\<exists>cs. wait 3 [0, 1000, 2000, 2500] ([?pending, ?complete] @ []) ?op
          = Some (Inr (model (last [?op, ?done])), cs)"
    by (rule wait_behaviour[where clock = "[0, 1000, 2000, 2500]" and st = 0
          and readings = "[1000, 2000, 2500]" and later = "[]",
          THEN conjunct2, THEN conjunct2, THEN conjunct2, THEN conjunct1, THEN mp])
       (use ext run pend fin early in simp)
  then obtain cs where returned: "wait 3 [0, 1000, 2000, 2500] [?pending, ?complete] ?op
          = Some (Inr (snapshot_with None Complete []), cs)"
    by auto
  have nt: "never_terminal ?pending"
    by (simp add: never_terminal_def fixture_defs)
  have "\<exists>cs. wait 3 [0, 1000, 2000, 3000, 4000] [?pending, ?pending] ?op
          = Some (Inl (Error ''Staking operation timed out''), cs)"
    by (rule wait_behaviour[where st = 0 and readings = "[1000, 2000, 3000, 4000]",
          THEN conjunct2, THEN conjunct2, THEN conjunct2, THEN conjunct2, THEN mp])
       (use ext nt in simp)
  then obtain cs' where timed: "wait 3 [0, 1000, 2000, 3000, 4000] [?pending, ?pending] ?op
          = Some (Inl (Error ''Staking operation timed out''), cs')"
    by auto
  have calls: "snd (the (wait 3 [0, 1000, 2000, 2500] [?pending, ?complete] ?op))
                 = [GetExternalStakingOperation ''ethereum-holesky'' ''0xabc'' ''op-1'',
                    GetExternalStakingOperation ''ethereum-holesky'' ''0xabc'' ''op-1'']"
      "snd (the (wait 3 [0, 1000, 2000, 3000, 4000] [?pending, ?pending] ?op))
                 = [GetExternalStakingOperation ''ethereum-holesky'' ''0xabc'' ''op-1'']"
    by (simp_all add: wait_def isTerminalState_def isCompleteState_def isFailedState_def op_defs fixture_defs)
  from refused returned timed calls nt show ?thesis by simp
qed

section \<open>Consensus-layer exit options\<close>

text \<open>
  Claim C9. After any sequence of \<^verbatim>\<open>addValidator\<close> calls on a new builder, the
  accumulated keys are the added keys without duplicates, in first-insertion order.
  \<^verbatim>\<open>build(options)\<close> returns a fresh object holding the caller's options overwritten by
  \<open>unstake_type = "consensus"\<close> and \<open>validator_pub_keys\<close>, the accumulated keys joined
  by commas; every other key keeps the caller's value. The builder is unchanged and so
  is every object of the caller's store, the options argument among them, so the same
  builder can be built again with other options.
\<close>

theorem consensus_builder_build:
  assumes "r < length h"
  shows "validatorPubKeys (foldl (\<lambda>b k. addValidator k b) new_ConsensusLayerExitOptionBuilder ks) = first_seen ks
   \<and> (case consensus_build b h (Some r) of
        (b', h', res) \<Rightarrow>
          b' = b
        \<and> h' ! res = (h ! r) ++ [''unstake_type'' \<mapsto> ''consensus'',
                                  ''validator_pub_keys'' \<mapsto> join '','' (validatorPubKeys b)]
        \<and> (h' ! res) ''unstake_type'' = Some ''consensus''
        \<and> (h' ! res) ''validator_pub_keys'' = Some (join '','' (validatorPubKeys b))
        \<and> (\<forall>k. k \<noteq> ''unstake_type'' \<and> k \<noteq> ''validator_pub_keys'' \<longrightarrow> (h' ! res) k = (h ! r) k)
        \<and> length h \<le> res \<and> res < length h'
        \<and> take (length h) h' = h)"
proof -
  have "validatorPubKeys (foldl (\<lambda>b k. addValidator k b) new_ConsensusLayerExitOptionBuilder ks) = first_seen ks"
    using addValidator_accumulates[of new_ConsensusLayerExitOptionBuilder ks]
    by (simp add: new_ConsensusLayerExitOptionBuilder_def)
  then show ?thesis
    using assms by (simp add: consensus_build_result UnstakeTypeConsensus_def map_add_def nth_append)
qed

theorem consensus_builder_build_witness:
  "validatorPubKeys (foldl (\<lambda>b k. addValidator k b) new_ConsensusLayerExitOptionBuilder
      [''0xaa'', ''0xbb'', ''0xaa'']) = [''0xaa'', ''0xbb'']
   \<and> (case consensus_build \<lparr>validatorPubKeys = [''0xaa'', ''0xbb'']\<rparr>
          [[''unstake_type'' \<mapsto> ''execution'', ''immediate'' \<mapsto> ''true'']] (Some 0) of
        (b', h', res) \<Rightarrow>
          b' = \<lparr>validatorPubKeys = [''0xaa'', ''0xbb'']\<rparr>
        \<and> (h' ! res) ''unstake_type'' = Some ''consensus''
        \<and> (h' ! res) ''validator_pub_keys'' = Some ''0xaa,0xbb''
        \<and> (h' ! res) ''immediate'' = Some ''true''
        \<and> res = 2
        \<and> (h' ! 0) ''unstake_type'' = Some ''execution'')"
proof -
  have "(0::nat) < length [[''unstake_type'' \<mapsto> ''execution'', ''immediate'' \<mapsto> ''true'']]" by simp
  from consensus_builder_build[OF this, of "[''0xaa'', ''0xbb'', ''0xaa'']" "\<lparr>validatorPubKeys = [''0xaa'', ''0xbb'']\<rparr>"]
  show ?thesis
    by (simp add: consensus_build_def alloc_def Object_assign_def UnstakeTypeConsensus_def split: prod.splits)
qed

section \<open>The amount field of a staking request\<close>

text \<open>
  Claim C3, as amended. A request issued by \<^verbatim>\<open>buildStakingOperation\<close> (external
  address) or \<^verbatim>\<open>createStakingOperationRequest\<close> (wallet address) carries, when action =
  unstake, assetId = eth, mode = NATIVE and the options hold unstake_type "execution"
  or "consensus", the caller's options with \<open>mode\<close> added and nothing else: the builder
  writes no amount, and an amount the caller's options already held stays. In every
  other combination a request is issued only with \<open>amount\<close> set to the decimal string
  of \<^verbatim>\<open>toAtomicAmount(amount)\<close>. So the amount field is absent exactly when the operation
  is amount-exempt and the caller's options hold no amount. The last four parts give the
  calls issued once the asset is resolved.
\<close>

theorem request_amount_field:
  "(BuildStakingOperation n p i act ropts
      \<in> set (snd (buildStakingOperation be a amount aid action mode opts)) \<longrightarrow>
      (ropts ''amount'' = None \<longleftrightarrow>
         IsDedicatedEthUnstakeV2Operation aid action mode opts \<and> opts ''amount'' = None)
    \<and> (IsDedicatedEthUnstakeV2Operation aid action mode opts \<longrightarrow>
         ropts = opts(''mode'' \<mapsto> StakeOptionsMode_value mode))
    \<and> (\<not> IsDedicatedEthUnstakeV2Operation aid action mode opts \<longrightarrow>
         (\<exists>asset atomic. fst (Asset_fetch be (getNetworkId a) aid) = Inr asset
            \<and> toAtomicAmount asset amount = Inr atomic
            \<and> ropts = opts(''mode'' \<mapsto> StakeOptionsMode_value mode,
                            ''amount'' \<mapsto> BigInt_toString atomic))))
 \<and> (CreateStakingOperation w ad n' p' act' ropts'
      \<in> set (snd (createStakingOperationRequest be' wa amount aid action mode opts)) \<longrightarrow>
      (ropts' ''amount'' = None \<longleftrightarrow>
         IsDedicatedEthUnstakeV2Operation aid action mode opts \<and> opts ''amount'' = None)
    \<and> (IsDedicatedEthUnstakeV2Operation aid action mode opts \<longrightarrow>
         ropts' = opts(''mode'' \<mapsto> StakeOptionsMode_value mode))
    \<and> (\<not> IsDedicatedEthUnstakeV2Operation aid action mode opts \<longrightarrow>
         (\<exists>asset atomic. fst (Asset_fetch be' (getNetworkId (as_Address wa)) aid) = Inr asset
            \<and> toAtomicAmount asset amount = Inr atomic
            \<and> ropts' = opts(''mode'' \<mapsto> StakeOptionsMode_value mode,
                             ''amount'' \<mapsto> BigInt_toString atomic))))
 \<and> (IsDedicatedEthUnstakeV2Operation aid action mode opts
      \<and> fst (Asset_fetch be (getNetworkId a) aid) = Inr fetched \<longrightarrow>
      snd (buildStakingOperation be a amount aid action mode opts) =
        [GetAsset (normalizeNetwork (getNetworkId a)) (primaryDenomination aid),
         BuildStakingOperation (getNetworkId a) (primaryDenomination aid) (getId a) action
           (opts(''mode'' \<mapsto> StakeOptionsMode_value mode))])
 \<and> (\<not> IsDedicatedEthUnstakeV2Operation aid action mode opts
      \<and> fst (Asset_fetch be (getNetworkId a) aid) = Inr fetched
      \<and> \<not> Decimal_lessThanOrEqualTo amount Decimal_zero
      \<and> toAtomicAmount fetched amount = Inr converted \<longrightarrow>
      snd (buildStakingOperation be a amount aid action mode opts) =
        [GetAsset (normalizeNetwork (getNetworkId a)) (primaryDenomination aid),
         BuildStakingOperation (getNetworkId a) (primaryDenomination aid) (getId a) action
           (opts(''mode'' \<mapsto> StakeOptionsMode_value mode, ''amount'' \<mapsto> BigInt_toString converted))])
 \<and> (IsDedicatedEthUnstakeV2Operation aid action mode opts
      \<and> fst (Asset_fetch be' (getNetworkId (as_Address wa)) aid) = Inr fetched \<longrightarrow>
      snd (createStakingOperationRequest be' wa amount aid action mode opts) =
        [GetAsset (normalizeNetwork (getNetworkId (as_Address wa))) (primaryDenomination aid),
         CreateStakingOperation (getWalletId wa) (getId (as_Address wa)) (getNetworkId (as_Address wa))
           (primaryDenomination aid) action (opts(''mode'' \<mapsto> StakeOptionsMode_value mode))])
 \<and> (\<not> IsDedicatedEthUnstakeV2Operation aid action mode opts
      \<and> fst (Asset_fetch be' (getNetworkId (as_Address wa)) aid) = Inr fetched
      \<and> toAtomicAmount fetched amount = Inr converted \<longrightarrow>
      snd (createStakingOperationRequest be' wa amount aid action mode opts) =
        [GetAsset (normalizeNetwork (getNetworkId (as_Address wa))) (primaryDenomination aid),
         CreateStakingOperation (getWalletId wa) (getId (as_Address wa)) (getNetworkId (as_Address wa))
           (primaryDenomination aid) action
           (opts(''mode'' \<mapsto> StakeOptionsMode_value mode, ''amount'' \<mapsto> BigInt_toString converted))])"
proof (intro conjI impI)
  assume m: "BuildStakingOperation n p i act ropts
      \<in> set (snd (buildStakingOperation be a amount aid action mode opts))"
  from buildStakingOperation_request[OF m]
  show "ropts ''amount'' = None \<longleftrightarrow>
         IsDedicatedEthUnstakeV2Operation aid action mode opts \<and> opts ''amount'' = None"
    by (auto split: if_splits)
  {
    assume "IsDedicatedEthUnstakeV2Operation aid action mode opts"
    with buildStakingOperation_request[OF m]
    show "ropts = opts(''mode'' \<mapsto> StakeOptionsMode_value mode)" by simp
  }
  {
    assume "\<not> IsDedicatedEthUnstakeV2Operation aid action mode opts"
    with buildStakingOperation_request[OF m]
    show "\<exists>asset atomic. fst (Asset_fetch be (getNetworkId a) aid) = Inr asset
            \<and> toAtomicAmount asset amount = Inr atomic
            \<and> ropts = opts(''mode'' \<mapsto> StakeOptionsMode_value mode,
                            ''amount'' \<mapsto> BigInt_toString atomic)" by simp
  }
next
  assume m: "CreateStakingOperation w ad n' p' act' ropts'
      \<in> set (snd (createStakingOperationRequest be' wa amount aid action mode opts))"
  from createStakingOperationRequest_request[OF m]
  show "ropts' ''amount'' = None \<longleftrightarrow>
         IsDedicatedEthUnstakeV2Operation aid action mode opts \<and> opts ''amount'' = None"
    by (auto split: if_splits)
  {
    assume "IsDedicatedEthUnstakeV2Operation aid action mode opts"
    with createStakingOperationRequest_request[OF m]
    show "ropts' = opts(''mode'' \<mapsto> StakeOptionsMode_value mode)" by simp
  }
  {
    assume "\<not> IsDedicatedEthUnstakeV2Operation aid action mode opts"
    with createStakingOperationRequest_request[OF m]
    show "\<exists>asset atomic. fst (Asset_fetch be' (getNetworkId (as_Address wa)) aid) = Inr asset
            \<and> toAtomicAmount asset amount = Inr atomic
            \<and> ropts' = opts(''mode'' \<mapsto> StakeOptionsMode_value mode,
                             ''amount'' \<mapsto> BigInt_toString atomic)" by simp
  }
next
  assume "IsDedicatedEthUnstakeV2Operation aid action mode opts
      \<and> fst (Asset_fetch be (getNetworkId a) aid) = Inr fetched"
  then show "snd (buildStakingOperation be a amount aid action mode opts) =
        [GetAsset (normalizeNetwork (getNetworkId a)) (primaryDenomination aid),
         BuildStakingOperation (getNetworkId a) (primaryDenomination aid) (getId a) action
           (opts(''mode'' \<mapsto> StakeOptionsMode_value mode))]"
    by (simp add: buildStakingOperation_exempt)
next
  assume "\<not> IsDedicatedEthUnstakeV2Operation aid action mode opts
      \<and> fst (Asset_fetch be (getNetworkId a) aid) = Inr fetched
      \<and> \<not> Decimal_lessThanOrEqualTo amount Decimal_zero
      \<and> toAtomicAmount fetched amount = Inr converted"
  then show "snd (buildStakingOperation be a amount aid action mode opts) =
        [GetAsset (normalizeNetwork (getNetworkId a)) (primaryDenomination aid),
         BuildStakingOperation (getNetworkId a) (primaryDenomination aid) (getId a) action
           (opts(''mode'' \<mapsto> StakeOptionsMode_value mode, ''amount'' \<mapsto> BigInt_toString converted))]"
    by (simp add: buildStakingOperation_amount)
next
  assume "IsDedicatedEthUnstakeV2Operation aid action mode opts
      \<and> fst (Asset_fetch be' (getNetworkId (as_Address wa)) aid) = Inr fetched"
  then show "snd (createStakingOperationRequest be' wa amount aid action mode opts) =
        [GetAsset (normalizeNetwork (getNetworkId (as_Address wa))) (primaryDenomination aid),
         CreateStakingOperation (getWalletId wa) (getId (as_Address wa)) (getNetworkId (as_Address wa))
           (primaryDenomination aid) action (opts(''mode'' \<mapsto> StakeOptionsMode_value mode))]"
    by (simp add: createStakingOperationRequest_exempt)
next
  assume "\<not> IsDedicatedEthUnstakeV2Operation aid action mode opts
      \<and> fst (Asset_fetch be' (getNetworkId (as_Address wa)) aid) = Inr fetched
      \<and> toAtomicAmount fetched amount = Inr converted"
  then show "snd (createStakingOperationRequest be' wa amount aid action mode opts) =
        [GetAsset (normalizeNetwork (getNetworkId (as_Address wa))) (primaryDenomination aid),
         CreateStakingOperation (getWalletId wa) (getId (as_Address wa)) (getNetworkId (as_Address wa))
           (primaryDenomination aid) action
           (opts(''mode'' \<mapsto> StakeOptionsMode_value mode, ''amount'' \<mapsto> BigInt_toString converted))]"
    by (simp add: createStakingOperationRequest_amount)
qed

theorem request_amount_field_witness:
  "IsDedicatedEthUnstakeV2Operation ''eth'' ''unstake'' NATIVE [''unstake_type'' \<mapsto> ''execution'']
 \<and> snd (buildStakingOperation
        (stake_backend_with 18 (balances_of (Dec 5 0)) (snapshot_with None (Pending ''initialized'') []))
        external_address (Dec 0 0) ''eth'' ''unstake'' NATIVE [''unstake_type'' \<mapsto> ''execution''])
    = [GetAsset ''ethereum-holesky'' ''eth'',
       BuildStakingOperation ''ethereum_holesky'' ''eth'' ''0xabc'' ''unstake''
         [''unstake_type'' \<mapsto> ''execution'', ''mode'' \<mapsto> ''native'']]
 \<and> [''unstake_type'' \<mapsto> ''execution'', ''mode'' \<mapsto> ''native''] ''amount'' = None
 \<and> [''unstake_type'' \<mapsto> ''execution'', ''mode'' \<mapsto> ''native''] ''unstake_type'' = Some ''execution''
 \<and> snd (buildStakingOperation
        (stake_backend_with 18 (balances_of (Dec 5 0)) (snapshot_with None (Pending ''initialized'') []))
        external_address (Dec 15 (-1)) ''eth'' ''stake'' DEFAULT Map.empty)
    = [GetAsset ''ethereum-holesky'' ''eth'',
       BuildStakingOperation ''ethereum_holesky'' ''eth'' ''0xabc'' ''stake''
         [''mode'' \<mapsto> ''default'', ''amount'' \<mapsto> ''1500000000000000000'']]
 \<and> snd (createStakingOperationRequest
        (stake_backend_with 18 (balances_of (Dec 5 0)) (snapshot_with (Some ''wallet-1'') (Pending ''initialized'') []))
        wallet_address (Dec 15 (-1)) ''eth'' ''stake'' DEFAULT Map.empty)
    = [GetAsset ''ethereum-holesky'' ''eth'',
       CreateStakingOperation ''wallet-1'' ''0xabc'' ''ethereum_holesky'' ''eth'' ''stake''
         [''mode'' \<mapsto> ''default'', ''amount'' \<mapsto> ''1500000000000000000'']]"
proof -
  let ?be = "stake_backend_with 18 (balances_of (Dec 5 0)) (snapshot_with None (Pending ''initialized'') [])"
  let ?be' = "stake_backend_with 18 (balances_of (Dec 5 0)) (snapshot_with (Some ''wallet-1'') (Pending ''initialized'') [])"
  let ?asset = "\<lparr>asset_networkId = ''ethereum-holesky'', asset_assetId = ''eth'',
                 asset_contractAddress = None, decimals = 18\<rparr>"
  have ex: "IsDedicatedEthUnstakeV2Operation ''eth'' ''unstake'' NATIVE [''unstake_type'' \<mapsto> ''execution'']"
    by (simp add: stake_defs)
  have ne: "\<not> IsDedicatedEthUnstakeV2Operation ''eth'' ''stake'' DEFAULT Map.empty"
    by (simp add: stake_defs)
  have f: "fst (Asset_fetch ?be (getNetworkId external_address) ''eth'') = Inr ?asset"
    by (simp add: stake_defs stake_fixture_defs)
  have f': "fst (Asset_fetch ?be' (getNetworkId (as_Address wallet_address)) ''eth'') = Inr ?asset"
    by (simp add: stake_defs stake_fixture_defs)
  have pos: "\<not> Decimal_lessThanOrEqualTo (Dec 15 (-1)) Decimal_zero"
    by (simp add: decimal_defs)
  have at: "toAtomicAmount ?asset (Dec 15 (-1)) = Inr 1500000000000000000"
    by (simp add: decimal_defs Let_def)
  have str: "BigInt_toString 1500000000000000000 = ''1500000000000000000''"
    by (simp add: BigInt_toString_def)
  note ext_exempt = request_amount_field[where be = ?be and a = external_address and aid = "''eth''"
      and action = "''unstake''" and mode = NATIVE and opts = "[''unstake_type'' \<mapsto> ''execution'']"
      and amount = "Dec 0 0" and fetched = ?asset,
      THEN conjunct2, THEN conjunct2, THEN conjunct1, THEN mp, OF conjI[OF ex f]]
  note ext_amount = request_amount_field[where be = ?be and a = external_address and aid = "''eth''"
      and action = "''stake''" and mode = DEFAULT and opts = Map.empty
      and amount = "Dec 15 (-1)" and fetched = ?asset and converted = 1500000000000000000,
      THEN conjunct2, THEN conjunct2, THEN conjunct2, THEN conjunct1, THEN mp,
      OF conjI[OF ne conjI[OF f conjI[OF pos at]]]]
  note wal_amount = request_amount_field[where be' = ?be' and wa = wallet_address and aid = "''eth''"
      and action = "''stake''" and mode = DEFAULT and opts = Map.empty
      and amount = "Dec 15 (-1)" and fetched = ?asset and converted = 1500000000000000000,
      THEN conjunct2, THEN conjunct2, THEN conjunct2, THEN conjunct2, THEN conjunct2, THEN mp,
      OF conjI[OF ne conjI[OF f' at]]]
  from ext_exempt ext_amount wal_amount ex str
  show ?thesis
    by (simp add: getNetworkId_def getId_def getWalletId_def as_Address_def normalizeNetwork_def
        primaryDenomination_def assets_Eth_def assets_Wei_def assets_Gwei_def
        external_address_def wallet_address_def)
qed

text \<open>
  The claim as stated fails from right to left: an amount-exempt unstake whose options
  carry an \<open>amount\<close> key of the caller's is sent with that amount.
\<close>

theorem request_keeps_caller_amount_counterexample:
  "IsDedicatedEthUnstakeV2Operation ''eth'' ''unstake'' NATIVE
     [''unstake_type'' \<mapsto> ''execution'', ''amount'' \<mapsto> ''7'']
 \<and> snd (buildStakingOperation
        (stake_backend_with 18 (balances_of (Dec 5 0)) (snapshot_with None (Pending ''initialized'') []))
        external_address (Dec 1 0) ''eth'' ''unstake'' NATIVE
        [''unstake_type'' \<mapsto> ''execution'', ''amount'' \<mapsto> ''7''])
    = [GetAsset ''ethereum-holesky'' ''eth'',
       BuildStakingOperation ''ethereum_holesky'' ''eth'' ''0xabc'' ''unstake''
         [''unstake_type'' \<mapsto> ''execution'', ''amount'' \<mapsto> ''7'', ''mode'' \<mapsto> ''native'']]
 \<and> [''unstake_type'' \<mapsto> ''execution'', ''amount'' \<mapsto> ''7'', ''mode'' \<mapsto> ''native''] ''amount''
     = Some ''7''"
  by (simp add: stake_defs stake_fixture_defs)

section \<open>Atomic-unit round trip\<close>

text \<open>
  Claim C4. \<^verbatim>\<open>toAtomicAmount\<close> is documented to return the amount in atomic units, and
  multiplies with the decimal library's \<^verbatim>\<open>times\<close>, which rounds its result to 20
  significant digits. At 100.000000000000000001 eth (18 decimals, so exactly
  representable, 21 significant digits) it returns 100000000000000000000 where the
  amount in atomic units is 100000000000000000001, and \<^verbatim>\<open>fromAtomicAmount\<close> of the
  result is 100, not the amount. At 100.000000000000000005 eth the result is rounded up
  to 100000000000000000010. The example of the claim, 1.5 eth, converts to
  "1500000000000000000".
\<close>

theorem atomic_round_trip_beyond_precision:
  "- int (decimals \<lparr>asset_networkId = ''ethereum-holesky'', asset_assetId = ''eth'',
                     asset_contractAddress = None, decimals = 18\<rparr>)
     \<le> exponent (Dec 100000000000000000001 (-18))
 \<and> toAtomicAmount \<lparr>asset_networkId = ''ethereum-holesky'', asset_assetId = ''eth'',
                   asset_contractAddress = None, decimals = 18\<rparr> (Dec 100000000000000000001 (-18))
     = Inr 100000000000000000000
 \<and> fromAtomicAmount \<lparr>asset_networkId = ''ethereum-holesky'', asset_assetId = ''eth'',
                      asset_contractAddress = None, decimals = 18\<rparr>
      (Decimal_of_BigInt 100000000000000000000) = Some (Dec 10000000000000000000 (-17))
 \<and> \<not> Decimal_equals (Dec 10000000000000000000 (-17)) (Dec 100000000000000000001 (-18))
 \<and> toAtomicAmount \<lparr>asset_networkId = ''ethereum-holesky'', asset_assetId = ''eth'',
                   asset_contractAddress = None, decimals = 18\<rparr> (Dec 100000000000000000005 (-18))
     = Inr 100000000000000000010
 \<and> toAtomicAmount \<lparr>asset_networkId = ''ethereum-holesky'', asset_assetId = ''eth'',
                   asset_contractAddress = None, decimals = 18\<rparr> (Dec 15 (-1))
     = Inr 1500000000000000000
 \<and> BigInt_toString 1500000000000000000 = ''1500000000000000000''"
  by (simp add: decimal_defs Let_def)

section \<open>Amounts that are not positive\<close>

text \<open>
  Claim C5, as amended. For a request that is not amount-exempt and an amount less than
  or equal to zero, no build or create call is issued and no staking operation is
  created. \<^verbatim>\<open>createStakingOperation\<close> on a wallet address fails with "Amount required
  greater than zero." before any call at all. \<^verbatim>\<open>buildStakingOperation\<close> on an external
  address looks the asset up first, which is its only call: it fails with that error
  when the lookup resolves the asset, and with the error of the lookup when the lookup
  fails.
\<close>

theorem nonpositive_amount_rejected:
  assumes "\<not> IsDedicatedEthUnstakeV2Operation aid action mode opts"
    and "Decimal_lessThanOrEqualTo amount Decimal_zero"
  shows "(\<exists>e. fst (buildStakingOperation be a amount aid action mode opts) = Inl e)
       \<and> fst (buildStakingOperation be a amount aid action mode opts)
           = (case fst (Asset_fetch be (getNetworkId a) aid) of
                Inl e \<Rightarrow> Inl e
              | Inr asset \<Rightarrow> Inl (Error ''Amount required greater than zero.''))
       \<and> snd (buildStakingOperation be a amount aid action mode opts)
           = [GetAsset (normalizeNetwork (getNetworkId a)) (primaryDenomination aid)]
       \<and> createStakingOperation be wa amount aid action mode opts timeoutSeconds clock rbes bbes
           = Some (Inl (Error ''Amount required greater than zero.''), [])"
  using assms buildStakingOperation_nonpositive[OF assms, of be a]
  by (auto simp: createStakingOperation_def split: sum.splits)

theorem nonpositive_amount_rejected_witness:
  "\<not> IsDedicatedEthUnstakeV2Operation ''eth'' ''unstake'' NATIVE Map.empty
 \<and> Decimal_lessThanOrEqualTo (Dec (-5) (-1)) Decimal_zero
 \<and> buildStakingOperation (stake_backend_with 18 (balances_of (Dec 5 0)) (snapshot_with None (Pending ''initialized'') []))
      external_address (Dec (-5) (-1)) ''eth'' ''unstake'' NATIVE Map.empty
    = (Inl (Error ''Amount required greater than zero.''), [GetAsset ''ethereum-holesky'' ''eth''])
 \<and> createStakingOperation (stake_backend_with 18 (balances_of (Dec 5 0)) (snapshot_with None (Pending ''initialized'') []))
      wallet_address (Dec (-5) (-1)) ''eth'' ''unstake'' NATIVE Map.empty 600 [0, 1000] [] []
    = Some (Inl (Error ''Amount required greater than zero.''), [])"
proof -
  have ne: "\<not> IsDedicatedEthUnstakeV2Operation ''eth'' ''unstake'' NATIVE Map.empty"
    by (simp add: IsDedicatedEthUnstakeV2Operation_def HasUnstakeTypeOption_def)
  have le: "Decimal_lessThanOrEqualTo (Dec (-5) (-1)) Decimal_zero"
    by (simp add: Decimal_lessThanOrEqualTo_def Decimal_zero_def)
  note inst = nonpositive_amount_rejected[OF ne le,
      where be = "stake_backend_with 18 (balances_of (Dec 5 0)) (snapshot_with None (Pending ''initialized'') [])"
        and a = external_address and wa = wallet_address and timeoutSeconds = 600
        and clock = "[0, 1000]" and rbes = "[]" and bbes = "[]"]
  have built: "buildStakingOperation (stake_backend_with 18 (balances_of (Dec 5 0)) (snapshot_with None (Pending ''initialized'') []))
      external_address (Dec (-5) (-1)) ''eth'' ''unstake'' NATIVE Map.empty
    = (Inl (Error ''Amount required greater than zero.''), [GetAsset ''ethereum-holesky'' ''eth''])"
    using inst[THEN conjunct2, THEN conjunct1] inst[THEN conjunct2, THEN conjunct2, THEN conjunct1]
    by (simp add: stake_defs stake_fixture_defs prod_eq_iff)
  from ne le built inst[THEN conjunct2, THEN conjunct2, THEN conjunct2]
  show ?thesis by (intro conjI)
qed

text \<open>
  The claim as stated fails when the asset lookup fails: the external address then
  raises the error of the lookup, not the error about the amount.
\<close>

theorem nonpositive_amount_lookup_error_counterexample:
  "\<not> IsDedicatedEthUnstakeV2Operation ''eth'' ''stake'' DEFAULT Map.empty
 \<and> Decimal_lessThanOrEqualTo (Dec (-5) (-1)) Decimal_zero
 \<and> buildStakingOperation
      (stake_backend_lookup_failing (balances_of (Dec 5 0)) (snapshot_with None (Pending ''initialized'') []))
      external_address (Dec (-5) (-1)) ''eth'' ''stake'' DEFAULT Map.empty
    = (Inl (RemoteError ''asset lookup failed''), [GetAsset ''ethereum-holesky'' ''eth''])
 \<and> fst (buildStakingOperation
      (stake_backend_lookup_failing (balances_of (Dec 5 0)) (snapshot_with None (Pending ''initialized'') []))
      external_address (Dec (-5) (-1)) ''eth'' ''stake'' DEFAULT Map.empty)
    \<noteq> Inl (Error ''Amount required greater than zero.'')"
  by (simp add: stake_defs stake_fixture_defs stake_backend_lookup_failing_def
      Decimal_lessThanOrEqualTo_def Decimal_zero_def)

section \<open>The balance gate at its boundary\<close>

text \<open>
  Claim C6. Let the staking context fetched for the validation hold the balances. Each
  of \<^verbatim>\<open>validateCanStake\<close>, \<^verbatim>\<open>validateCanUnstake\<close> and \<^verbatim>\<open>validateCanClaimStake\<close> (the
  last one outside eth in NATIVE mode, where no balance is fetched) succeeds for an
  amount equal to the balance it checks, and fails for an amount strictly greater with
  the insufficient-funds error that carries the requested amount and the available
  balance.
\<close>

theorem balance_gate_boundary:
  assumes "getStakingContext be (getNetworkId a) (primaryDenomination aid) (getId a)
             ((copyOptions opts)(''mode'' \<mapsto> StakeOptionsMode_value mode)) = Inr balances"
  shows "(Decimal_equals amount (stakeableBalance_of balances) \<longrightarrow>
            fst (validateCanStake be a amount aid mode opts) = Inr ())
       \<and> (Decimal_lessThan (stakeableBalance_of balances) amount \<longrightarrow>
            fst (validateCanStake be a amount aid mode opts)
              = Inl (InsufficientFunds ''stake'' amount (stakeableBalance_of balances)))
       \<and> (Decimal_equals amount (unstakeableBalance_of balances) \<longrightarrow>
            fst (validateCanUnstake be a amount aid mode opts) = Inr ())
       \<and> (Decimal_lessThan (unstakeableBalance_of balances) amount \<longrightarrow>
            fst (validateCanUnstake be a amount aid mode opts)
              = Inl (InsufficientFunds ''unstake'' amount (unstakeableBalance_of balances)))
       \<and> (\<not> (aid = ''eth'' \<and> mode = NATIVE) \<and> Decimal_equals amount (claimableBalance_of balances) \<longrightarrow>
            fst (validateCanClaimStake be a amount aid mode opts) = Inr ())
       \<and> (\<not> (aid = ''eth'' \<and> mode = NATIVE) \<and> Decimal_lessThan (claimableBalance_of balances) amount \<longrightarrow>
            fst (validateCanClaimStake be a amount aid mode opts)
              = Inl (InsufficientFunds ''claim stake'' amount (claimableBalance_of balances)))"
  using getStakingBalances_ok[OF assms] Decimal_equals_not_lessThan
  by (auto simp: validateCanStake_def validateCanUnstake_def validateCanClaimStake_def
      stakeableBalance_def unstakeableBalance_def claimableBalance_def)

theorem balance_gate_boundary_witness:
  "fst (validateCanStake (stake_backend_with 18 (balances_of (Dec 15 (-1))) (snapshot_with None (Pending ''initialized'') []))
          external_address (Dec 150 (-2)) ''eth'' DEFAULT Map.empty) = Inr ()
 \<and> fst (validateCanStake (stake_backend_with 18 (balances_of (Dec 15 (-1))) (snapshot_with None (Pending ''initialized'') []))
          external_address (Dec 1500000000000000001 (-18)) ''eth'' DEFAULT Map.empty)
     = Inl (InsufficientFunds ''stake'' (Dec 1500000000000000001 (-18)) (Dec 15 (-1)))
 \<and> fst (validateCanUnstake (stake_backend_with 18 (balances_of (Dec 15 (-1))) (snapshot_with None (Pending ''initialized'') []))
          external_address (Dec 150 (-2)) ''eth'' DEFAULT Map.empty) = Inr ()
 \<and> fst (validateCanUnstake (stake_backend_with 18 (balances_of (Dec 15 (-1))) (snapshot_with None (Pending ''initialized'') []))
          external_address (Dec 1500000000000000001 (-18)) ''eth'' DEFAULT Map.empty)
     = Inl (InsufficientFunds ''unstake'' (Dec 1500000000000000001 (-18)) (Dec 15 (-1)))
 \<and> fst (validateCanClaimStake (stake_backend_with 18 (balances_of (Dec 15 (-1))) (snapshot_with None (Pending ''initialized'') []))
          external_address (Dec 150 (-2)) ''eth'' DEFAULT Map.empty) = Inr ()
 \<and> fst (validateCanClaimStake (stake_backend_with 18 (balances_of (Dec 15 (-1))) (snapshot_with None (Pending ''initialized'') []))
          external_address (Dec 1500000000000000001 (-18)) ''eth'' DEFAULT Map.empty)
     = Inl (InsufficientFunds ''claim stake'' (Dec 1500000000000000001 (-18)) (Dec 15 (-1)))"
  (is "fst (validateCanStake ?be _ _ _ _ _) = _ \<and> _")
proof -
  have ctx: "getStakingContext ?be (getNetworkId external_address) (primaryDenomination ''eth'')
               (getId external_address) ((copyOptions Map.empty)(''mode'' \<mapsto> StakeOptionsMode_value DEFAULT))
             = Inr (balances_of (Dec 15 (-1)))"
    by (simp add: stake_backend_with_def)
  have eq: "Decimal_equals (Dec 150 (-2)) (Dec 15 (-1))"
    by (simp add: Decimal_equals_def)
  have lt: "Decimal_lessThan (Dec 15 (-1)) (Dec 1500000000000000001 (-18))"
    by (simp add: Decimal_lessThan_def)
  from balance_gate_boundary[OF ctx, of "Dec 150 (-2)"]
       balance_gate_boundary[OF ctx, of "Dec 1500000000000000001 (-18)"] eq lt
  show ?thesis by (simp add: balances_of_def)
qed

section \<open>Claiming native eth stake\<close>

text \<open>
  Claim C7. For every amount and options, against every backend,
  \<^verbatim>\<open>validateCanClaimStake\<close> with assetId = eth and mode = NATIVE fails with an error and
  issues no backend call: no balance is fetched.
\<close>

theorem claim_stake_native_eth_rejected:
  "validateCanClaimStake be a amount ''eth'' NATIVE opts
     = (Inl (Error ''Claiming stake for ETH is not supported in native mode.''), [])"
  by (simp add: validateCanClaimStake_def)

end
